theory Spec2Isabelle
  imports Complex_Main "HOL-Library.Product_Lexorder" "HOL-Library.Sublist" "HOL-Library.Multiset"
begin

section \<open>Kinematic diffraction simulation of pyxem: the data model\<close>

text \<open>
  The development embeds \<^verbatim>\<open>pyxem/generators/diffraction_generator.py\<close>: the class
  \<^verbatim>\<open>DiffractionGenerator\<close> with its two methods \<^verbatim>\<open>calculate_ed_data\<close> (the Ewald-sphere
  pattern simulator) and \<^verbatim>\<open>calculate_profile_data\<close> (the powder profile reducer).

  Numbers: Python and numpy floats are idealised as \<^typ>\<open>real\<close>. Where the source can
  produce a NaN or an infinity (a division by a zero maximum, an \<^verbatim>\<open>arcsin\<close> outside
  \<open>[-1, 1]\<close>) the model writes out what the comparison that consumes the value yields.

  Exceptions: a raised Python exception is a value \<open>Exn cls msg\<close> of its class name and
  its message; a function that may raise returns \<open>exn + 'a\<close>.
\<close>

datatype exn = Exn (cls: string) (msg: string)

text \<open>A species of pymatgen: atomic number and element symbol.\<close>

record species =
  Z :: nat
  symbol :: string

text \<open>
  A site: its \<^verbatim>\<open>species_and_occu\<close> items in iteration order and its fractional
  coordinates. A structure iterates over its sites.
\<close>

record site =
  species_and_occu :: "(species \<times> real) list"
  frac_coords :: "real \<times> real \<times> real"

type_synonym "structure" = "site list"

text \<open>
  \<^verbatim>\<open>ATOMIC_SCATTERING_PARAMS\<close> lives in \<^verbatim>\<open>pyxem.utils.atomic_scattering_params\<close>, which
  is not part of the sources at hand: the table is a parameter, a dictionary from the
  element symbol to the rows \<open>(a\<^sub>i, b\<^sub>i)\<close> of Gaussian coefficients. So is the dictionary
  of Debye-Waller factors held by the generator.
\<close>

type_synonym scattering_params = "string \<rightharpoonup> (real \<times> real) list"
type_synonym debye_waller = "string \<rightharpoonup> real"

text \<open>
  An enumerated reciprocal point as \<^verbatim>\<open>get_points_in_sphere\<close> returns it: the fractional
  coordinates \<open>hkl\<close> (floats), the magnitude \<open>g_hkl\<close> and the site index.
\<close>

type_synonym recip_pt = "(real \<times> real \<times> real) \<times> real \<times> nat"

text \<open>One entry of the flattened arrays \<^verbatim>\<open>zs, coeffs, fcoords, occus, dwfactors\<close>.\<close>

record atom =
  a_z :: nat
  a_coeffs :: "(real \<times> real) list"
  a_fcoords :: "real \<times> real \<times> real"
  a_occu :: real
  a_dwfactor :: real

text \<open>
  A bucket of the dictionary \<^verbatim>\<open>peaks\<close>: the list \<^verbatim>\<open>[i_hkl, [tuple(hkl), ...], d_hkl]\<close>.
  The dictionary keeps insertion order and unique keys: an association list updated in
  place. \<^verbatim>\<open>gs\<close> is the list of recorded magnitudes.
\<close>

type_synonym bucket = "real \<times> int list list \<times> real"
type_synonym peaks = "(real \<times> bucket) list"

record 'f ProfileSimulation =
  magnitudes :: "real list"
  intensities :: "real list"
  hkls :: "'f list"

record DiffractionSimulation =
  coordinates :: "(real \<times> real \<times> real) list"
  indices :: "(real \<times> real \<times> real) list"
  ds_intensities :: "real list"
  with_direct_beam :: bool

section \<open>Python and numpy primitives\<close>

text \<open>\<^verbatim>\<open>max(xs)\<close> of Python: raises \<^verbatim>\<open>ValueError\<close> on an empty sequence.\<close>

definition empty_max :: exn where
  "empty_max = Exn ''ValueError'' ''max() arg is an empty sequence''"

fun py_max :: "real list \<Rightarrow> exn + real" where
  "py_max [] = Inl empty_max"
| "py_max (x # xs) = Inr (fold max xs x)"

text \<open>\<^verbatim>\<open>round\<close> of Python 3 on a float: to the nearest integer, a tie to the even one.\<close>

definition py_round :: "real \<Rightarrow> int" where
  "py_round x =
     (let f = \<lfloor>x\<rfloor>; d = x - of_int f
      in if d < 1 / 2 then f
         else if 1 / 2 < d then f + 1
         else if even f then f else f + 1)"

text \<open>Assignment \<^verbatim>\<open>d[k] = v\<close> on a dictionary: in place for a present key, else appended.\<close>

fun dict_set :: "real \<Rightarrow> 'v \<Rightarrow> (real \<times> 'v) list \<Rightarrow> (real \<times> 'v) list" where
  "dict_set k v [] = [(k, v)]"
| "dict_set k v (p # ps) = (if fst p = k then (k, v) # ps else p # dict_set k v ps)"

text \<open>Lookup \<^verbatim>\<open>d[k]\<close>: raises \<^verbatim>\<open>KeyError\<close> for an absent key.\<close>

definition dict_get :: "(real \<times> 'v) list \<Rightarrow> real \<Rightarrow> exn + 'v" where
  "dict_get d k = (case map_of d k of None \<Rightarrow> Inl (Exn ''KeyError'' '''') | Some v \<Rightarrow> Inr v)"

section \<open>The powder profile reducer: \<^verbatim>\<open>calculate_profile_data\<close>\<close>

subsection \<open>Flattening the structure (lines 181-199)\<close>

definition no_coefficients :: "string \<Rightarrow> exn" where
  "no_coefficients el =
     Exn ''ValueError''
       (''Unable to calculate XRD pattern as there is no scattering coefficients for ''
          @ el @ ''.'')"

fun flatten_species ::
  "scattering_params \<Rightarrow> debye_waller \<Rightarrow> real \<times> real \<times> real \<Rightarrow> (species \<times> real) list
     \<Rightarrow> atom list \<Rightarrow> exn + atom list" where
  "flatten_species params dwf fc [] acc = Inr acc"
| "flatten_species params dwf fc ((sp, occu) # rest) acc =
     (case params (symbol sp) of
        None \<Rightarrow> Inl (no_coefficients (symbol sp))
      | Some c \<Rightarrow>
          flatten_species params dwf fc rest
            (acc @ [\<lparr>a_z = Z sp, a_coeffs = c, a_fcoords = fc, a_occu = occu,
                     a_dwfactor = (case dwf (symbol sp) of None \<Rightarrow> 0 | Some b \<Rightarrow> b)\<rparr>]))"

fun flatten_sites ::
  "scattering_params \<Rightarrow> debye_waller \<Rightarrow> structure \<Rightarrow> atom list \<Rightarrow> exn + atom list" where
  "flatten_sites params dwf [] acc = Inr acc"
| "flatten_sites params dwf (s # ss) acc =
     (case flatten_species params dwf (frac_coords s) (species_and_occu s) acc of
        Inl e \<Rightarrow> Inl e
      | Inr acc' \<Rightarrow> flatten_sites params dwf ss acc')"

subsection \<open>The processing order (lines 209-210)\<close>

text \<open>
  \<^verbatim>\<open>sorted(recip_pts, key=lambda i: (i[1], -i[0][0], -i[0][1], -i[0][2]))\<close>: a stable
  sort on a tuple key, tuples compared lexicographically.
\<close>

definition sort_key_pt :: "recip_pt \<Rightarrow> real \<times> real \<times> real \<times> real" where
  "sort_key_pt p = (case p of ((h, k, l), g, ind) \<Rightarrow> (g, - h, - k, - l))"

definition sorted_pts :: "recip_pt list \<Rightarrow> recip_pt list" where
  "sorted_pts pts = sort_key sort_key_pt pts"

subsection \<open>The intensity of one reflection (lines 222-243)\<close>

definition atomic_fs :: "(real \<times> real) list \<Rightarrow> real \<Rightarrow> real" where
  "atomic_fs coeffs s2 = (\<Sum>(a, b) \<leftarrow> coeffs. a * exp (- b * s2))"

definition g_dot_r :: "real \<times> real \<times> real \<Rightarrow> int \<times> int \<times> int \<Rightarrow> real" where
  "g_dot_r fc hkl =
     (case fc of (fx, fy, fz) \<Rightarrow> case hkl of (h, k, l) \<Rightarrow>
        fx * of_int h + fy * of_int k + fz * of_int l)"

definition f_hkl :: "atom list \<Rightarrow> int \<times> int \<times> int \<Rightarrow> real \<Rightarrow> complex" where
  "f_hkl atoms hkl s2 =
     (\<Sum>a \<leftarrow> atoms.
        of_real (atomic_fs (a_coeffs a) s2 * a_occu a)
          * exp (2 * \<i> * of_real pi * of_real (g_dot_r (a_fcoords a) hkl))
          * of_real (exp (- a_dwfactor a * s2)))"

text \<open>
  With no flattened entry, \<^verbatim>\<open>fcoords\<close> is an array of shape \<open>(0,)\<close> and \<^verbatim>\<open>np.dot\<close> with
  the \<open>(3, 1)\<close> column of \<open>hkl\<close> raises.
\<close>

definition not_aligned :: exn where
  "not_aligned =
     Exn ''ValueError'' ''shapes (0,) and (3,1) not aligned: 0 (dim 0) != 3 (dim 0)''"

definition i_hkl :: "atom list \<Rightarrow> int \<times> int \<times> int \<Rightarrow> real \<Rightarrow> exn + real" where
  "i_hkl atoms hkl g =
     (let s = g / 2; s2 = s ^ 2
      in if atoms = [] then Inl not_aligned
         else let f = f_hkl atoms hkl s2 in Inr (Re (f * cnj f)))"

subsection \<open>Merging into buckets (lines 209-258)\<close>

definition hkl_tuple :: "bool \<Rightarrow> int \<times> int \<times> int \<Rightarrow> int list" where
  "hkl_tuple is_hex hkl =
     (case hkl of (h, k, l) \<Rightarrow> if is_hex then [h, k, - h - k, l] else [h, k, l])"

definition process_point ::
  "atom list \<Rightarrow> bool \<Rightarrow> real \<Rightarrow> recip_pt \<Rightarrow> peaks \<times> real list \<Rightarrow> exn + peaks \<times> real list" where
  "process_point atoms is_hex magnitude_tolerance p st =
     (case p of ((h, k, l), g, ind) \<Rightarrow> case st of (pk, gs) \<Rightarrow>
        let hkl = (py_round h, py_round k, py_round l)
        in if g \<noteq> 0 then
             (case i_hkl atoms hkl g of
                Inl e \<Rightarrow> Inl e
              | Inr i \<Rightarrow>
                  (case find (\<lambda>x. \<bar>x - g\<bar> < magnitude_tolerance) gs of
                     Some k0 \<Rightarrow>
                       (case dict_get pk k0 of
                          Inl e \<Rightarrow> Inl e
                        | Inr (i0, fam, d) \<Rightarrow>
                            Inr (dict_set k0 (i0 + i, fam @ [hkl_tuple is_hex hkl], d) pk, gs))
                   | None \<Rightarrow>
                       Inr (dict_set g (i, [hkl_tuple is_hex hkl], 1 / g) pk, gs @ [g])))
           else Inr (pk, gs))"

fun accumulate ::
  "atom list \<Rightarrow> bool \<Rightarrow> real \<Rightarrow> recip_pt list \<Rightarrow> peaks \<times> real list \<Rightarrow> exn + peaks \<times> real list" where
  "accumulate atoms is_hex tol [] st = Inr st"
| "accumulate atoms is_hex tol (p # ps) st =
     (case process_point atoms is_hex tol p st of
        Inl e \<Rightarrow> Inl e
      | Inr st' \<Rightarrow> accumulate atoms is_hex tol ps st')"

subsection \<open>Rescaling and filtering (lines 260-277)\<close>

text \<open>
  The test \<^verbatim>\<open>v[0] / max_intensity * 100 > minimum_intensity\<close> on numpy floats. A zero
  \<^verbatim>\<open>max_intensity\<close> does not raise: the quotient is NaN for a zero \<^verbatim>\<open>v[0]\<close> (the test
  is false), and plus or minus infinity for a positive or negative one.
\<close>

definition exceeds_minimum :: "real \<Rightarrow> real \<Rightarrow> real \<Rightarrow> bool" where
  "exceeds_minimum max_intensity minimum_intensity v0 =
     (if max_intensity = 0 then 0 < v0
      else minimum_intensity < v0 / max_intensity * 100)"

text \<open>
  The loop over \<^verbatim>\<open>sorted(peaks.keys())\<close>, collecting the parallel lists
  \<^verbatim>\<open>x, y, hkls\<close> as a list of triples. \<^verbatim>\<open>get_unique_families\<close> lives in
  \<^verbatim>\<open>pyxem.utils.sim_utils\<close>, not part of the sources at hand: it is a parameter.
\<close>

fun collect ::
  "(int list list \<Rightarrow> 'f) \<Rightarrow> peaks \<Rightarrow> real \<Rightarrow> real \<Rightarrow> real list \<Rightarrow> exn + (real \<times> real \<times> 'f) list" where
  "collect guf pk max_intensity minimum_intensity [] = Inr []"
| "collect guf pk max_intensity minimum_intensity (k # ks) =
     (case dict_get pk k of
        Inl e \<Rightarrow> Inl e
      | Inr (v0, fam, d) \<Rightarrow>
          (case collect guf pk max_intensity minimum_intensity ks of
             Inl e \<Rightarrow> Inl e
           | Inr rest \<Rightarrow>
               Inr (if exceeds_minimum max_intensity minimum_intensity v0
                    then (k, v0, guf fam) # rest else rest)))"

definition finish ::
  "(int list list \<Rightarrow> 'f) \<Rightarrow> real \<Rightarrow> peaks \<Rightarrow> exn + 'f ProfileSimulation" where
  "finish guf minimum_intensity pk =
     (case py_max (map (\<lambda>(k, v0, fam, d). v0) pk) of
        Inl e \<Rightarrow> Inl e
      | Inr max_intensity \<Rightarrow>
          (case collect guf pk max_intensity minimum_intensity (sort (map fst pk)) of
             Inl e \<Rightarrow> Inl e
           | Inr recs \<Rightarrow>
               (case py_max (map (\<lambda>(x, y, fam). y) recs) of
                  Inl e \<Rightarrow> Inl e
                | Inr my \<Rightarrow>
                    Inr \<lparr>magnitudes = map (\<lambda>(x, y, fam). x) recs,
                         intensities = map (\<lambda>(x, y, fam). y / my * 100) recs,
                         hkls = map (\<lambda>(x, y, fam). fam) recs\<rparr>)))"

text \<open>The dictionary \<^verbatim>\<open>peaks\<close> when the loop over the points is left (line 258).\<close>

definition profile_buckets ::
  "scattering_params \<Rightarrow> debye_waller \<Rightarrow> structure \<Rightarrow> bool \<Rightarrow> recip_pt list \<Rightarrow> real
     \<Rightarrow> exn + peaks" where
  "profile_buckets params dwf struct is_hex recip_pts magnitude_tolerance =
     (case flatten_sites params dwf struct [] of
        Inl e \<Rightarrow> Inl e
      | Inr atoms \<Rightarrow>
          (case accumulate atoms is_hex magnitude_tolerance (sorted_pts recip_pts) ([], []) of
             Inl e \<Rightarrow> Inl e
           | Inr (pk, gs) \<Rightarrow> Inr pk))"

definition calculate_profile_data ::
  "scattering_params \<Rightarrow> debye_waller \<Rightarrow> (int list list \<Rightarrow> 'f) \<Rightarrow> structure \<Rightarrow> bool
     \<Rightarrow> recip_pt list \<Rightarrow> real \<Rightarrow> real \<Rightarrow> exn + 'f ProfileSimulation" where
  "calculate_profile_data params dwf guf struct is_hex recip_pts magnitude_tolerance
       minimum_intensity =
     (case flatten_sites params dwf struct [] of
        Inl e \<Rightarrow> Inl e
      | Inr atoms \<Rightarrow>
          (case accumulate atoms is_hex magnitude_tolerance (sorted_pts recip_pts) ([], []) of
             Inl e \<Rightarrow> Inl e
           | Inr (pk, gs) \<Rightarrow> finish guf minimum_intensity pk))"

section \<open>The Ewald-sphere pattern simulator: \<^verbatim>\<open>calculate_ed_data\<close>\<close>

text \<open>
  \<^verbatim>\<open>radius = 1 / wavelength\<close> on a Python float raises for a zero wavelength.
\<close>

definition float_division_by_zero :: exn where
  "float_division_by_zero = Exn ''ZeroDivisionError'' ''float division by zero''"

text \<open>
  Lines 109-112 for one point. \<^verbatim>\<open>np.arcsin\<close> outside \<open>[-1, 1]\<close> is NaN, and so is the
  proximity then: \<open>None\<close>.
\<close>

definition proximity_of :: "real \<Rightarrow> real \<times> real \<times> real \<Rightarrow> real option" where
  "proximity_of radius c =
     (case c of (x, y, z) \<Rightarrow>
        let r = sqrt (x ^ 2 + y ^ 2);
            q = r / radius
        in if \<bar>q\<bar> \<le> 1
           then (let theta = arcsin q; z_sphere = radius * (1 - cos theta)
                 in Some \<bar>z_sphere - z\<bar>)
           else None)"

text \<open>
  Lines 113-118: the mask \<^verbatim>\<open>proximity < max_excitation_error\<close> (a comparison with NaN
  is false) applied to the coordinates, the indices, the proximities and the magnitudes.
\<close>

definition intersection_row ::
  "real \<Rightarrow> real \<Rightarrow> real \<times> real \<times> real \<Rightarrow> real \<times> real \<times> real \<Rightarrow> real
     \<Rightarrow> ((real \<times> real \<times> real) \<times> (real \<times> real \<times> real) \<times> real \<times> real) option" where
  "intersection_row radius max_excitation_error c hkl g =
     (case proximity_of radius c of
        None \<Rightarrow> None
      | Some p \<Rightarrow> if p < max_excitation_error then Some (c, hkl, g, p) else None)"

definition intersection_rows ::
  "real \<Rightarrow> real \<Rightarrow> (real \<times> real \<times> real \<Rightarrow> real \<times> real \<times> real)
     \<Rightarrow> ((real \<times> real \<times> real) \<times> real) list
     \<Rightarrow> ((real \<times> real \<times> real) \<times> (real \<times> real \<times> real) \<times> real \<times> real) list" where
  "intersection_rows radius max_excitation_error get_cartesian_coords pts =
     List.map_filter
       (\<lambda>(hkl, g). intersection_row radius max_excitation_error (get_cartesian_coords hkl) hkl g)
       pts"

text \<open>Indexing an array with a boolean mask of another length raises.\<close>

definition mask_mismatch :: exn where
  "mask_mismatch =
     Exn ''IndexError'' ''boolean index did not match indexed array along dimension 0''"

text \<open>
  \<^verbatim>\<open>get_points_in_sphere(..., zip_results=False)[:2]\<close> gives the parallel arrays
  \<^verbatim>\<open>recip_pts, g_hkls\<close>: a list of pairs. \<^verbatim>\<open>get_cartesian_coords\<close> of the lattice and
  \<^verbatim>\<open>get_kinematical_intensities\<close> of \<^verbatim>\<open>pyxem.utils.sim_utils\<close> (not part of the sources
  at hand; the structure, the maximum excitation error and the Debye-Waller factors it
  also takes are fixed by the caller) are parameters. The enumeration holds the origin for
  every radius that is not negative, so the arrays are not empty.
\<close>

definition calculate_ed_data ::
  "real \<Rightarrow> real \<Rightarrow> (real \<times> real \<times> real \<Rightarrow> real \<times> real \<times> real)
     \<Rightarrow> ((real \<times> real \<times> real) list \<Rightarrow> real list \<Rightarrow> real list \<Rightarrow> exn + real list)
     \<Rightarrow> ((real \<times> real \<times> real) \<times> real) list \<Rightarrow> bool \<Rightarrow> exn + DiffractionSimulation" where
  "calculate_ed_data wavelength max_excitation_error get_cartesian_coords
       get_kinematical_intensities pts with_direct =
     (if wavelength = 0 then Inl float_division_by_zero
      else
        let radius = 1 / wavelength;
            hit = intersection_rows radius max_excitation_error get_cartesian_coords pts;
            intersection_coordinates = map (\<lambda>(c, hkl, g, p). c) hit;
            intersection_indices = map (\<lambda>(c, hkl, g, p). hkl) hit;
            proximity = map (\<lambda>(c, hkl, g, p). p) hit;
            g_hkls = map (\<lambda>(c, hkl, g, p). g) hit
        in case get_kinematical_intensities intersection_indices g_hkls proximity of
             Inl e \<Rightarrow> Inl e
           | Inr ints \<Rightarrow>
               if length ints \<noteq> length hit then Inl mask_mismatch
               else
                 let kept = filter (\<lambda>(i, c, hkl). 1 / 10 ^ 20 < i)
                              (zip ints (zip intersection_coordinates intersection_indices))
                 in Inr \<lparr>coordinates = map (\<lambda>(i, c, hkl). c) kept,
                         indices = map (\<lambda>(i, c, hkl). hkl) kept,
                         ds_intensities = map (\<lambda>(i, c, hkl). i) kept,
                         with_direct_beam = with_direct\<rparr>)"

subsection \<open>The intensity helper\<close>

text \<open>
  The first species, in the order in which the sites and their species are iterated, whose
  symbol has no entry in the table.
\<close>

definition first_missing :: "scattering_params \<Rightarrow> structure \<Rightarrow> (species \<times> real) option" where
  "first_missing params struct =
     find (\<lambda>(sp, occu). params (symbol sp) = None) (concat (map species_and_occu struct))"

text \<open>
  Modelled from the spec: \<^verbatim>\<open>get_kinematical_intensities\<close> of \<^verbatim>\<open>pyxem.utils.sim_utils\<close>, which
  \<^verbatim>\<open>calculate_ed_data\<close> calls, is missing from the sources. By sections 4.1 and 7 of the
  specification the simulator fails with an \<^verbatim>\<open>UnknownElementError\<close> naming the element
  symbol, surfaced immediately, when a site references a species with no entry in the
  scattering-parameter table; otherwise there is one intensity for each retained point.
  The specification leaves the attenuation law open, so the intensity of one reflection,
  from its index, magnitude and excitation error, is a parameter.
\<close>

definition spec_get_kinematical_intensities ::
  "scattering_params \<Rightarrow> (real \<times> real \<times> real \<Rightarrow> real \<Rightarrow> real \<Rightarrow> real) \<Rightarrow> structure
     \<Rightarrow> (real \<times> real \<times> real) list \<Rightarrow> real list \<Rightarrow> real list \<Rightarrow> exn + real list" where
  "spec_get_kinematical_intensities params intensity struct g_indices g_hkls proximity =
     (case first_missing params struct of
        Some (sp, occu) \<Rightarrow> Inl (Exn ''UnknownElementError'' (symbol sp))
      | None \<Rightarrow>
          Inr (map (\<lambda>(hkl, g, p). intensity hkl g p) (zip g_indices (zip g_hkls proximity))))"

text \<open>
  The excitation error as the specification words it:
  \<open>|(1/\<lambda>) (1 - cos (arcsin (sqrt (x\<^sup>2 + y\<^sup>2) \<lambda>))) - z|\<close>.
\<close>

definition spec_excitation_error :: "real \<Rightarrow> real \<times> real \<times> real \<Rightarrow> real" where
  "spec_excitation_error wavelength c =
     (case c of (x, y, z) \<Rightarrow>
        \<bar>(1 / wavelength) * (1 - cos (arcsin (sqrt (x ^ 2 + y ^ 2) * wavelength))) - z\<bar>)"


text \<open>Where \<^verbatim>\<open>np.arcsin\<close> is defined: the transverse radius times the wavelength is at most 1.\<close>

definition arcsin_defined :: "real \<Rightarrow> real \<times> real \<times> real \<Rightarrow> bool" where
  "arcsin_defined wavelength c =
     (case c of (x, y, z) \<Rightarrow> \<bar>sqrt (x ^ 2 + y ^ 2) * wavelength\<bar> \<le> 1)"

section \<open>Derived notions\<close>

text \<open>
  The invariant of the loop over the points: the keys of \<^verbatim>\<open>peaks\<close> are distinct and are
  the entries of \<^verbatim>\<open>gs\<close>, the accumulated intensities are not negative, and two different
  recorded magnitudes are at least the tolerance apart.
\<close>

definition peaks_inv :: "real \<Rightarrow> peaks \<times> real list \<Rightarrow> bool" where
  "peaks_inv tol st =
     (case st of (pk, gs) \<Rightarrow>
        distinct (map fst pk) \<and> set (map fst pk) = set gs
        \<and> (\<forall>(k, i, fam, d) \<in> set pk. 0 \<le> i)
        \<and> (\<forall>a \<in> set gs. \<forall>b \<in> set gs. a \<noteq> b \<longrightarrow> tol \<le> \<bar>a - b\<bar>))"

text \<open>The buckets that pass the filter of line 269, in ascending order of their keys.\<close>

definition kept_buckets :: "real \<Rightarrow> real \<Rightarrow> peaks \<Rightarrow> peaks" where
  "kept_buckets M mi pk =
     filter (\<lambda>(k, v0, fam, d). exceeds_minimum M mi v0) (sort_key fst pk)"

text \<open>The records of a profile: the parallel lists \<^verbatim>\<open>x, y, hkls\<close> read as triples.\<close>

definition records :: "'f ProfileSimulation \<Rightarrow> (real \<times> real \<times> 'f) list" where
  "records sim = zip (magnitudes sim) (zip (intensities sim) (hkls sim))"

section \<open>A concrete input\<close>

text \<open>
  A cubic cell of 4 Angstrom with one aluminium atom at the origin; the table holds two
  rows of Gaussian coefficients for it. The points are the origin and two reflections of
  the family \<open>{100}\<close>, of magnitude \<open>1/4\<close>. No Debye-Waller factor is given.
\<close>

definition ex_params :: scattering_params where
  "ex_params = [''Al'' \<mapsto> [(2276 / 1000, 72322 / 1000), (2428 / 1000, 19773 / 1000)]]"

definition ex_dwf :: debye_waller where
  "ex_dwf = Map.empty"

definition ex_struct :: "structure" where
  "ex_struct = [\<lparr>species_and_occu = [(\<lparr>Z = 13, symbol = ''Al''\<rparr>, 1)], frac_coords = (0, 0, 0)\<rparr>]"

definition ex_atoms :: "atom list" where
  "ex_atoms = [\<lparr>a_z = 13, a_coeffs = [(2276 / 1000, 72322 / 1000), (2428 / 1000, 19773 / 1000)],
                a_fcoords = (0, 0, 0), a_occu = 1, a_dwfactor = 0\<rparr>]"

definition ex_pts :: "recip_pt list" where
  "ex_pts = [((0, 0, 0), 0, 0), ((1, 0, 0), 1 / 4, 0), ((- 1, 0, 0), 1 / 4, 0)]"

text \<open>The intensity of a reflection of magnitude \<open>1/4\<close> on this structure.\<close>

definition ex_i :: real where
  "ex_i = (2276 / 1000 * exp (- (72322 / 1000) * (1 / 64))
            + 2428 / 1000 * exp (- (19773 / 1000) * (1 / 64))) ^ 2"

text \<open>
  An aluminium site and a site shared by two species whose symbols the table does not hold.
\<close>

definition ex_unknown :: "structure" where
  "ex_unknown = [\<lparr>species_and_occu = [(\<lparr>Z = 13, symbol = ''Al''\<rparr>, 1 / 2)],
                   frac_coords = (0, 0, 0)\<rparr>,
                  \<lparr>species_and_occu = [(\<lparr>Z = 0, symbol = ''Xx''\<rparr>, 1 / 2),
                                       (\<lparr>Z = 0, symbol = ''Yy''\<rparr>, 1 / 2)],
                   frac_coords = (1 / 2, 1 / 2, 1 / 2)\<rparr>]"

text \<open>The aluminium site with occupancy zero: every reflection has intensity zero.\<close>

definition ex_zero :: "structure" where
  "ex_zero = [\<lparr>species_and_occu = [(\<lparr>Z = 13, symbol = ''Al''\<rparr>, 0)], frac_coords = (0, 0, 0)\<rparr>]"

definition ex_zero_atoms :: "atom list" where
  "ex_zero_atoms =
     [\<lparr>a_z = 13, a_coeffs = [(2276 / 1000, 72322 / 1000), (2428 / 1000, 19773 / 1000)],
       a_fcoords = (0, 0, 0), a_occu = 0, a_dwfactor = 0\<rparr>]"

text \<open>
  A fourth point, of the family \<open>{200}\<close> and magnitude \<open>1/2\<close>, enumerated first, and the
  intensity of a reflection of that magnitude.
\<close>

definition ex_i2 :: real where
  "ex_i2 = (2276 / 1000 * exp (- (72322 / 1000) * (1 / 16))
             + 2428 / 1000 * exp (- (19773 / 1000) * (1 / 16))) ^ 2"

definition ex_pts2 :: "recip_pt list" where
  "ex_pts2 = [((2, 0, 0), 1 / 2, 0), ((0, 0, 0), 0, 0), ((1, 0, 0), 1 / 4, 0),
              ((- 1, 0, 0), 1 / 4, 0)]"

text \<open>
  For the simulator: a wavelength of \<open>1/40\<close>, a maximum excitation error of \<open>1/100\<close>,
  three points on the beam axis, and an intensity helper with a linear fall-off in the
  excitation error.
\<close>

definition ex_gki ::
  "(real \<times> real \<times> real) list \<Rightarrow> real list \<Rightarrow> real list \<Rightarrow> exn + real list" where
  "ex_gki idx gs prox = Inr (map (\<lambda>p. 1 - 50 * p) prox)"

section \<open>Facts about the primitives and the loop\<close>

lemma py_max_Inr: "py_max xs = Inr m \<longleftrightarrow> xs \<noteq> [] \<and> m = Max (set xs)"
proof (cases xs)
  case Nil
  then show ?thesis by simp
next
  case (Cons a list)
  then show ?thesis using Max.set_eq_fold [of a list] by auto
qed

lemma py_max_Inl: "py_max xs = Inl e \<longleftrightarrow> xs = [] \<and> e = empty_max"
  by (cases xs) auto

lemma map_fst_dict_set:
  "map fst (dict_set k v d) = (if k \<in> fst ` set d then map fst d else map fst d @ [k])"
  by (induction d) auto


lemma set_dict_set:
  "distinct (map fst d) \<Longrightarrow> set (dict_set k v d) = {p \<in> set d. fst p \<noteq> k} \<union> {(k, v)}"
  by (induction d) (auto simp: rev_image_eqI)

lemma i_hkl_nonneg: "i_hkl atoms hkl g = Inr i \<Longrightarrow> 0 \<le> i"
  by (auto simp: i_hkl_def Let_def complex_mult_cnj split: if_splits)

lemma i_hkl_total: "atoms \<noteq> [] \<Longrightarrow> \<exists>i. i_hkl atoms hkl g = Inr i"
  by (simp add: i_hkl_def Let_def)

lemma dict_get_Inr: "dict_get d k = Inr v \<longleftrightarrow> map_of d k = Some v"
  by (simp add: dict_get_def split: option.splits)

lemma dict_get_mem: "distinct (map fst d) \<Longrightarrow> dict_get d k = Inr v \<longleftrightarrow> (k, v) \<in> set d"
  by (simp add: dict_get_Inr)

lemma peaks_inv_empty: "peaks_inv tol ([], [])"
  by (simp add: peaks_inv_def)

lemma process_point_inv:
  assumes "peaks_inv tol st" and "process_point atoms is_hex tol p st = Inr st'"
  shows "peaks_inv tol st'"
proof -
  obtain h k l g ind where p: "p = ((h, k, l), g, ind)" by (metis prod_cases3)
  obtain pk gs where st: "st = (pk, gs)" by (cases st)
  from assms(1) st have d: "distinct (map fst pk)" and ks: "set (map fst pk) = set gs"
    and nn: "\<forall>(k, i, fam, d) \<in> set pk. 0 \<le> i"
    and ap: "\<forall>a \<in> set gs. \<forall>b \<in> set gs. a \<noteq> b \<longrightarrow> tol \<le> \<bar>a - b\<bar>"
    by (auto simp: peaks_inv_def)
  show ?thesis
  proof (cases "g = 0")
    case True
    with assms p st show ?thesis by (simp add: process_point_def Let_def)
  next
    case g0: False
    let ?hkl = "(py_round h, py_round k, py_round l)"
    from assms(2) p st g0 obtain i where i: "i_hkl atoms ?hkl g = Inr i"
      by (auto simp: process_point_def Let_def split: sum.splits)
    then have i0: "0 \<le> i" by (rule i_hkl_nonneg)
    show ?thesis
    proof (cases "find (\<lambda>x. \<bar>x - g\<bar> < tol) gs")
      case None
      with assms(2) p st g0 i have st': "st' = (dict_set g (i, [hkl_tuple is_hex ?hkl], 1 / g) pk, gs @ [g])"
        by (simp add: process_point_def Let_def)
      from None have far: "\<forall>x \<in> set gs. \<not> \<bar>x - g\<bar> < tol" by (simp add: find_None_iff)
      have 1: "distinct (map fst (dict_set g (i, [hkl_tuple is_hex ?hkl], 1 / g) pk))"
        using d by (simp add: map_fst_dict_set)
      have 2: "set (map fst (dict_set g (i, [hkl_tuple is_hex ?hkl], 1 / g) pk)) = set (gs @ [g])"
        using ks by (auto simp: map_fst_dict_set)
      have 3: "\<forall>(k, i, fam, d) \<in> set (dict_set g (i, [hkl_tuple is_hex ?hkl], 1 / g) pk). 0 \<le> i"
        using nn i0 d by (auto simp: set_dict_set)
      have 4: "\<forall>a \<in> set (gs @ [g]). \<forall>b \<in> set (gs @ [g]). a \<noteq> b \<longrightarrow> tol \<le> \<bar>a - b\<bar>"
        using ap far by (auto simp: abs_minus_commute not_less)
      from 1 2 3 4 st' show ?thesis unfolding peaks_inv_def by simp
    next
      case (Some k0)
      with assms(2) p st g0 i obtain i0' fam dd where
        get: "dict_get pk k0 = Inr (i0', fam, dd)"
        and st': "st' = (dict_set k0 (i0' + i, fam @ [hkl_tuple is_hex ?hkl], dd) pk, gs)"
        by (auto simp: process_point_def Let_def split: sum.splits)
      from get d have mem: "(k0, i0', fam, dd) \<in> set pk" by (simp add: dict_get_mem)
      then have k0: "k0 \<in> fst ` set pk" by force
      from mem nn have "0 \<le> i0'" by auto
      with i0 have s0: "0 \<le> i0' + i" by simp
      have 1: "distinct (map fst (dict_set k0 (i0' + i, fam @ [hkl_tuple is_hex ?hkl], dd) pk))"
        using d by (simp add: map_fst_dict_set)
      have 2: "set (map fst (dict_set k0 (i0' + i, fam @ [hkl_tuple is_hex ?hkl], dd) pk)) = set gs"
        using ks k0 by (simp add: map_fst_dict_set)
      have 3: "\<forall>(k, i, fam, d) \<in> set (dict_set k0 (i0' + i, fam @ [hkl_tuple is_hex ?hkl], dd) pk). 0 \<le> i"
        using nn s0 d by (auto simp: set_dict_set)
      from 1 2 3 ap st' show ?thesis unfolding peaks_inv_def by simp
    qed
  qed
qed

lemma process_point_total:
  assumes "peaks_inv tol st" and "atoms \<noteq> []"
  shows "\<exists>st'. process_point atoms is_hex tol p st = Inr st'"
proof -
  obtain h k l g ind where p: "p = ((h, k, l), g, ind)" by (metis prod_cases3)
  obtain pk gs where st: "st = (pk, gs)" by (cases st)
  from assms(1) st have ks: "set (map fst pk) = set gs" by (auto simp: peaks_inv_def)
  let ?hkl = "(py_round h, py_round k, py_round l)"
  from assms(2) obtain i where i: "i_hkl atoms ?hkl g = Inr i" using i_hkl_total by blast
  show ?thesis
  proof (cases "find (\<lambda>x. \<bar>x - g\<bar> < tol) gs")
    case None
    with p st i show ?thesis by (simp add: process_point_def Let_def)
  next
    case (Some k0)
    then have "k0 \<in> set gs" by (auto simp: find_Some_iff)
    with ks have "k0 \<in> fst ` set pk" by simp
    then obtain v where "map_of pk k0 = Some v"
      by (metis map_of_eq_None_iff not_Some_eq)
    then have "dict_get pk k0 = Inr v" by (simp add: dict_get_Inr)
    with Some p st i show ?thesis by (cases v) (simp add: process_point_def Let_def)
  qed
qed

lemma accumulate_inv:
  "peaks_inv tol st \<Longrightarrow> accumulate atoms is_hex tol ps st = Inr st' \<Longrightarrow> peaks_inv tol st'"
proof (induction ps arbitrary: st)
  case Nil
  then show ?case by simp
next
  case (Cons p ps)
  from Cons.prems(2) obtain st1 where 1: "process_point atoms is_hex tol p st = Inr st1"
    and 2: "accumulate atoms is_hex tol ps st1 = Inr st'"
    by (auto split: sum.splits)
  from process_point_inv [OF Cons.prems(1) 1] Cons.IH 2 show ?case by blast
qed

lemma accumulate_total:
  "peaks_inv tol st \<Longrightarrow> atoms \<noteq> [] \<Longrightarrow> \<exists>st'. accumulate atoms is_hex tol ps st = Inr st'"
proof (induction ps arbitrary: st)
  case Nil
  then show ?case by simp
next
  case (Cons p ps)
  from process_point_total [OF Cons.prems] obtain st1 where
    1: "process_point atoms is_hex tol p st = Inr st1" by blast
  from process_point_inv [OF Cons.prems(1) 1] Cons.IH Cons.prems(2) 1 show ?case by auto
qed

section \<open>Facts about the final phase\<close>

lemma map_insort_key: "map f (insort_key f x ys) = insort (f x) (map f ys)"
  by (induction ys) auto

lemma map_sort_key: "map f (sort_key f xs) = sort (map f xs)"
  by (induction xs) (auto simp: map_insort_key)

lemma lookup_rows:
  assumes "distinct (map fst pk)" and "set ys \<subseteq> set pk"
  shows "map (\<lambda>k. (k, the (map_of pk k))) (map fst ys) = ys"
proof -
  have "(\<lambda>k. (k, the (map_of pk k))) (fst y) = y" if "y \<in> set ys" for y
  proof -
    from that assms(2) have "(fst y, snd y) \<in> set pk" by auto
    with assms(1) have "map_of pk (fst y) = Some (snd y)" by simp
    then show ?thesis by simp
  qed
  then show ?thesis by (simp add: map_idI o_def)
qed

lemma collect_eq:
  "set ks \<subseteq> fst ` set pk \<Longrightarrow>
   collect guf pk M mi ks =
     Inr (map (\<lambda>(k, v0, fam, d). (k, v0, guf fam))
            (filter (\<lambda>(k, v0, fam, d). exceeds_minimum M mi v0)
               (map (\<lambda>k. (k, the (map_of pk k))) ks)))"
proof (induction ks)
  case Nil
  then show ?case by simp
next
  case (Cons k ks)
  from Cons.prems obtain v where v: "map_of pk k = Some v"
    by (metis list.set_intros(1) map_of_eq_None_iff not_Some_eq subsetD)
  obtain v0 fam d where vv: "v = (v0, fam, d)" by (cases v)
  from Cons show ?case by (simp add: dict_get_def v vv)
qed

lemma collect_sorted:
  assumes "distinct (map fst pk)"
  shows "collect guf pk M mi (sort (map fst pk)) =
           Inr (map (\<lambda>(k, v0, fam, d). (k, v0, guf fam)) (kept_buckets M mi pk))"
proof -
  have "map (\<lambda>k. (k, the (map_of pk k))) (sort (map fst pk)) = sort_key fst pk"
    using lookup_rows [OF assms, of "sort_key fst pk"] by (simp add: map_sort_key)
  then show ?thesis by (simp add: collect_eq kept_buckets_def)
qed

lemma finish_eq:
  assumes "distinct (map fst pk)"
  shows "finish guf mi pk =
     (case py_max (map (\<lambda>(k, v0, fam, d). v0) pk) of
        Inl e \<Rightarrow> Inl e
      | Inr M \<Rightarrow>
          (case py_max (map (\<lambda>(k, v0, fam, d). v0) (kept_buckets M mi pk)) of
             Inl e \<Rightarrow> Inl e
           | Inr my \<Rightarrow>
               Inr \<lparr>magnitudes = map fst (kept_buckets M mi pk),
                    intensities = map (\<lambda>(k, v0, fam, d). v0 / my * 100) (kept_buckets M mi pk),
                    hkls = map (\<lambda>(k, v0, fam, d). guf fam) (kept_buckets M mi pk)\<rparr>))"
proof -
  have 1: "map (\<lambda>(x, y, fam). y) (map (\<lambda>(k, v0, fam, d). (k, v0, guf fam)) kb)
             = map (\<lambda>(k, v0, fam, d). v0) kb" for kb :: peaks
    by (induction kb) auto
  have 2: "map (\<lambda>(x, y, fam). x) (map (\<lambda>(k, v0, fam, d). (k, v0, guf fam)) kb)
             = map fst kb" for kb :: peaks
    by (induction kb) auto
  have 3: "map (\<lambda>(x, y, fam). y / my * 100) (map (\<lambda>(k, v0, fam, d). (k, v0, guf fam)) kb)
             = map (\<lambda>(k, v0, fam, d). v0 / my * 100) kb" for kb :: peaks and my
    by (induction kb) auto
  have 4: "map (\<lambda>(x, y, fam). fam) (map (\<lambda>(k, v0, fam, d). (k, v0, guf fam)) kb)
             = map (\<lambda>(k, v0, fam, d). guf fam) kb" for kb :: peaks
    by (induction kb) auto
  show ?thesis
    unfolding finish_def collect_sorted [OF assms] sum.case 1 2 3 4 ..
qed

lemma calculate_profile_data_buckets:
  "calculate_profile_data params dwf guf struct is_hex pts tol mi =
     (case profile_buckets params dwf struct is_hex pts tol of
        Inl e \<Rightarrow> Inl e
      | Inr pk \<Rightarrow> finish guf mi pk)"
  by (simp add: calculate_profile_data_def profile_buckets_def split: sum.splits prod.splits)

lemma profile_buckets_inv:
  assumes "profile_buckets params dwf struct is_hex pts tol = Inr pk"
  shows "\<exists>gs. peaks_inv tol (pk, gs)"
proof -
  from assms obtain atoms gs where
    "accumulate atoms is_hex tol (sorted_pts pts) ([], []) = Inr (pk, gs)"
    by (auto simp: profile_buckets_def split: sum.splits prod.splits)
  from accumulate_inv [OF peaks_inv_empty this] show ?thesis ..
qed

lemma kept_subset: "set (kept_buckets M mi pk) \<subseteq> set pk"
  by (auto simp: kept_buckets_def)

lemma kept_nil_zero:
  assumes "\<forall>(k, v0, fam, d) \<in> set pk. 0 \<le> v0 \<and> v0 \<le> M" and "M = 0"
  shows "kept_buckets M mi pk = []"
  using assms by (auto simp: kept_buckets_def filter_empty_conv exceeds_minimum_def)

lemma kept_nil_100:
  assumes "\<forall>(k, v0, fam, d) \<in> set pk. 0 \<le> v0 \<and> v0 \<le> M" and "100 \<le> mi"
  shows "kept_buckets M mi pk = []"
proof -
  have "\<not> exceeds_minimum M mi v0" if "0 \<le> v0" "v0 \<le> M" for v0
  proof (cases "M = 0")
    case True
    with that show ?thesis by (simp add: exceeds_minimum_def)
  next
    case False
    with that have "0 < M" by simp
    with that have "v0 / M \<le> 1" by simp
    then have "v0 / M * 100 \<le> 1 * 100" by (rule mult_right_mono) simp
    then have "v0 / M * 100 \<le> 100" by simp
    with assms(2) False show ?thesis by (simp add: exceeds_minimum_def)
  qed
  with assms(1) show ?thesis by (fastforce simp: kept_buckets_def filter_empty_conv)
qed

lemma kept_max:
  assumes "(k, M, fam, d) \<in> set pk" and "M \<noteq> 0" and "mi < 100"
  shows "(k, M, fam, d) \<in> set (kept_buckets M mi pk)"
  using assms by (simp add: kept_buckets_def exceeds_minimum_def)

lemma Max_bucket:
  assumes "pk \<noteq> []" and "M = Max (set (map (\<lambda>(k, v0, fam, d). v0) pk))"
  shows "(\<exists>k fam d. (k, M, fam, d) \<in> set pk) \<and> (\<forall>(k, v0, fam, d) \<in> set pk. v0 \<le> M)"
proof -
  let ?S = "set (map (\<lambda>(k, v0, fam, d). v0) pk)"
  from assms(1) have ne: "?S \<noteq> {}" by simp
  have fin: "finite ?S" by simp
  from Max_in [OF fin ne] assms(2) have "M \<in> ?S" by simp
  then have 1: "\<exists>k fam d. (k, M, fam, d) \<in> set pk" by force
  have "v0 \<le> M" if "(k, v0, fam, d) \<in> set pk" for k v0 fam d
  proof -
    from that have "v0 \<in> ?S" by force
    with assms(2) fin show ?thesis by (simp del: set_map)
  qed
  with 1 show ?thesis by auto
qed

text \<open>The outcome of the final phase on a reachable dictionary.\<close>

lemma finish_outcome:
  assumes d: "distinct (map fst pk)" and nn: "\<forall>(k, v0, fam, d) \<in> set pk. 0 \<le> v0"
  shows "finish guf mi pk =
     (if pk = [] \<or> Max (set (map (\<lambda>(k, v0, fam, d). v0) pk)) = 0 \<or> 100 \<le> mi
      then Inl empty_max
      else Inr \<lparr>magnitudes =
                  map fst (kept_buckets (Max (set (map (\<lambda>(k, v0, fam, d). v0) pk))) mi pk),
                intensities =
                  map (\<lambda>(k, v0, fam, d). v0 / Max (set (map (\<lambda>(k, v0, fam, d). v0) pk)) * 100)
                    (kept_buckets (Max (set (map (\<lambda>(k, v0, fam, d). v0) pk))) mi pk),
                hkls =
                  map (\<lambda>(k, v0, fam, d). guf fam)
                    (kept_buckets (Max (set (map (\<lambda>(k, v0, fam, d). v0) pk))) mi pk)\<rparr>)"
proof (cases "pk = []")
  case True
  then show ?thesis by (simp add: finish_def)
next
  case ne: False
  define M where "M = Max (set (map (\<lambda>(k, v0, fam, d). v0) pk))"
  from ne have pm: "py_max (map (\<lambda>(k, v0, fam, d). v0) pk) = Inr M"
    by (simp add: py_max_Inr M_def)
  from Max_bucket [OF ne M_def] obtain k fam dd where
    mem: "(k, M, fam, dd) \<in> set pk" and le: "\<forall>(k, v0, fam, d) \<in> set pk. v0 \<le> M"
    by blast
  from nn le have both: "\<forall>(k, v0, fam, d) \<in> set pk. 0 \<le> v0 \<and> v0 \<le> M" by fast
  show ?thesis
  proof (cases "M = 0 \<or> 100 \<le> mi")
    case True
    then have "kept_buckets M mi pk = []"
      using kept_nil_zero [OF both] kept_nil_100 [OF both] by blast
    with True ne pm show ?thesis
      unfolding finish_eq [OF d] M_def [symmetric] by simp
  next
    case False
    then have M0: "M \<noteq> 0" and mi: "mi < 100" by simp_all
    let ?kb = "kept_buckets M mi pk"
    from kept_max [OF mem M0 mi] have in_kb: "(k, M, fam, dd) \<in> set ?kb" .
    then have kne: "?kb \<noteq> []" by auto
    have "Max (set (map (\<lambda>(k, v0, fam, d). v0) ?kb)) = M"
    proof (rule Max_eqI)
      show "finite (set (map (\<lambda>(k, v0, fam, d). v0) ?kb))" by simp
      show "M \<in> set (map (\<lambda>(k, v0, fam, d). v0) ?kb)" using in_kb by force
      fix y assume "y \<in> set (map (\<lambda>(k, v0, fam, d). v0) ?kb)"
      then obtain k' fam' d' where "(k', y, fam', d') \<in> set ?kb" by auto
      with kept_subset have "(k', y, fam', d') \<in> set pk" by blast
      with le show "y \<le> M" by auto
    qed
    with kne have "py_max (map (\<lambda>(k, v0, fam, d). v0) ?kb) = Inr M"
      by (simp add: py_max_Inr)
    with False ne pm show ?thesis
      unfolding finish_eq [OF d] M_def [symmetric] by simp
  qed
qed


section \<open>Facts about the whole call\<close>

lemma dict_set_not_Nil: "dict_set k v d \<noteq> []"
  by (cases d) auto

lemma process_point_keeps:
  assumes "process_point atoms is_hex tol p (pk, gs) = Inr (pk', gs')" and "pk \<noteq> []"
  shows "pk' \<noteq> []"
proof -
  obtain h k l g ind where p: "p = ((h, k, l), g, ind)" by (metis prod_cases3)
  from assms show ?thesis
    by (auto simp: p process_point_def Let_def dict_set_not_Nil
        split: if_splits sum.splits option.splits prod.splits)
qed

lemma process_point_nonzero:
  assumes "process_point atoms is_hex tol p (pk, gs) = Inr (pk', gs')" and "fst (snd p) \<noteq> 0"
  shows "pk' \<noteq> []"
proof -
  obtain h k l g ind where p: "p = ((h, k, l), g, ind)" by (metis prod_cases3)
  from assms show ?thesis
    by (auto simp: p process_point_def Let_def dict_set_not_Nil
        split: if_splits sum.splits option.splits prod.splits)
qed

lemma accumulate_keeps:
  "accumulate atoms is_hex tol ps (pk, gs) = Inr (pk', gs') \<Longrightarrow> pk \<noteq> [] \<Longrightarrow> pk' \<noteq> []"
proof (induction ps arbitrary: pk gs)
  case Nil
  then show ?case by simp
next
  case (Cons p ps)
  from Cons.prems(1) obtain pk1 gs1 where
    1: "process_point atoms is_hex tol p (pk, gs) = Inr (pk1, gs1)"
    and 2: "accumulate atoms is_hex tol ps (pk1, gs1) = Inr (pk', gs')"
    by (auto split: sum.splits)
  from process_point_keeps [OF 1 Cons.prems(2)] Cons.IH [OF 2] show ?case by blast
qed

lemma accumulate_nonzero:
  "accumulate atoms is_hex tol ps (pk, gs) = Inr (pk', gs') \<Longrightarrow>
   \<exists>p \<in> set ps. fst (snd p) \<noteq> 0 \<Longrightarrow> pk' \<noteq> []"
proof (induction ps arbitrary: pk gs)
  case Nil
  then show ?case by simp
next
  case (Cons p ps)
  from Cons.prems(1) obtain pk1 gs1 where
    1: "process_point atoms is_hex tol p (pk, gs) = Inr (pk1, gs1)"
    and 2: "accumulate atoms is_hex tol ps (pk1, gs1) = Inr (pk', gs')"
    by (auto split: sum.splits)
  show ?case
  proof (cases "fst (snd p) \<noteq> 0")
    case True
    from process_point_nonzero [OF 1 True] accumulate_keeps [OF 2] show ?thesis by blast
  next
    case False
    with Cons.prems(2) have "\<exists>p \<in> set ps. fst (snd p) \<noteq> 0" by auto
    from Cons.IH [OF 2 this] show ?thesis .
  qed
qed

lemma accumulate_all_zero:
  "\<forall>p \<in> set ps. fst (snd p) = 0 \<Longrightarrow> accumulate atoms is_hex tol ps st = Inr st"
proof (induction ps)
  case Nil
  then show ?case by simp
next
  case (Cons p ps)
  obtain h k l g ind where p: "p = ((h, k, l), g, ind)" by (metis prod_cases3)
  obtain pk gs where st: "st = (pk, gs)" by (cases st)
  from Cons.prems p have "g = 0" by simp
  then have "process_point atoms is_hex tol p st = Inr st"
    by (simp add: p st process_point_def)
  with Cons show ?case by simp
qed

lemma set_sorted_pts: "set (sorted_pts pts) = set pts"
  by (simp add: sorted_pts_def)

lemma profile_buckets_total:
  assumes "flatten_sites params dwf struct [] = Inr atoms" and "atoms \<noteq> []"
  shows "\<exists>pk. profile_buckets params dwf struct is_hex pts tol = Inr pk"
proof -
  from accumulate_total [OF peaks_inv_empty assms(2)] obtain st' where
    "accumulate atoms is_hex tol (sorted_pts pts) ([], []) = Inr st'" by blast
  with assms(1) show ?thesis by (cases st') (simp add: profile_buckets_def)
qed

lemma profile_buckets_nonempty:
  assumes "profile_buckets params dwf struct is_hex pts tol = Inr pk"
    and "\<exists>p \<in> set pts. fst (snd p) \<noteq> 0"
  shows "pk \<noteq> []"
proof -
  from assms(1) obtain atoms gs where
    "accumulate atoms is_hex tol (sorted_pts pts) ([], []) = Inr (pk, gs)"
    by (auto simp: profile_buckets_def split: sum.splits prod.splits)
  from accumulate_nonzero [OF this] assms(2) show ?thesis by (simp add: set_sorted_pts)
qed

lemma profile_buckets_all_zero:
  assumes "flatten_sites params dwf struct [] = Inr atoms"
    and "\<forall>p \<in> set pts. fst (snd p) = 0"
  shows "profile_buckets params dwf struct is_hex pts tol = Inr []"
  using assms by (simp add: profile_buckets_def accumulate_all_zero set_sorted_pts)

text \<open>The outcome of the whole call once the loop over the points has completed.\<close>

lemma profile_outcome:
  assumes "profile_buckets params dwf struct is_hex pts tol = Inr pk"
  shows "calculate_profile_data params dwf guf struct is_hex pts tol mi =
     (if pk = [] \<or> Max (set (map (\<lambda>(k, v0, fam, d). v0) pk)) = 0 \<or> 100 \<le> mi
      then Inl empty_max
      else Inr \<lparr>magnitudes =
                  map fst (kept_buckets (Max (set (map (\<lambda>(k, v0, fam, d). v0) pk))) mi pk),
                intensities =
                  map (\<lambda>(k, v0, fam, d). v0 / Max (set (map (\<lambda>(k, v0, fam, d). v0) pk)) * 100)
                    (kept_buckets (Max (set (map (\<lambda>(k, v0, fam, d). v0) pk))) mi pk),
                hkls =
                  map (\<lambda>(k, v0, fam, d). guf fam)
                    (kept_buckets (Max (set (map (\<lambda>(k, v0, fam, d). v0) pk))) mi pk)\<rparr>)"
proof -
  from profile_buckets_inv [OF assms] obtain gs where "peaks_inv tol (pk, gs)" ..
  then have d: "distinct (map fst pk)" and nn: "\<forall>(k, v0, fam, d) \<in> set pk. 0 \<le> v0"
    by (auto simp: peaks_inv_def)
  show ?thesis
    unfolding calculate_profile_data_buckets assms sum.case by (rule finish_outcome [OF d nn])
qed


lemma ex_flatten: "flatten_sites ex_params Map.empty ex_struct [] = Inr ex_atoms"
  by (simp add: ex_params_def ex_struct_def ex_atoms_def)

lemma ex_sorted: "sorted_pts ex_pts = ex_pts"
  by (simp add: sorted_pts_def ex_pts_def sort_key_pt_def)

lemma py_round_of_int: "py_round (of_int n) = n"
  by (simp add: py_round_def)


lemma profile_returns_buckets:
  assumes "calculate_profile_data params dwf guf struct is_hex pts tol mi = Inr sim"
  shows "\<exists>pk. profile_buckets params dwf struct is_hex pts tol = Inr pk"
  using assms unfolding calculate_profile_data_buckets by (auto split: sum.splits)

lemma kept_buckets_Nil: "kept_buckets M mi [] = []"
  by (simp add: kept_buckets_def)

lemma ex_i_pos: "0 < ex_i"
proof -
  have "0 < 2276 / 1000 * exp (- (72322 / 1000) * (1 / 64))
            + 2428 / 1000 * exp (- (19773 / 1000) * (1 / 64 :: real))"
    by (intro add_pos_pos mult_pos_pos) simp_all
  then show ?thesis unfolding ex_i_def by simp
qed

lemma ex_i_hkl: "i_hkl ex_atoms hkl (1 / 4) = Inr ex_i"
proof -
  have s2: "((1 / 4 :: real) / 2) ^ 2 = 1 / 64" by (simp add: power2_eq_square)
  have f: "f_hkl ex_atoms hkl (1 / 64)
             = of_real (2276 / 1000 * exp (- (72322 / 1000) * (1 / 64))
                        + 2428 / 1000 * exp (- (19773 / 1000) * (1 / 64)))"
    by (cases hkl) (simp add: f_hkl_def ex_atoms_def atomic_fs_def g_dot_r_def)
  show ?thesis
    unfolding i_hkl_def Let_def s2 f
    by (simp add: ex_atoms_def ex_i_def power2_eq_square)
qed

lemma ex_buckets:
  "profile_buckets ex_params Map.empty ex_struct False ex_pts (1 / 100000)
     = Inr [(1 / 4, ex_i + ex_i, [[1, 0, 0], [- 1, 0, 0]], 4)]"
proof -
  have r: "py_round 0 = 0" "py_round 1 = 1" "py_round (- 1) = - 1"
    using py_round_of_int [of 0] py_round_of_int [of 1] py_round_of_int [of "- 1"] by simp_all
  have "accumulate ex_atoms False (1 / 100000) ex_pts ([], [])
          = Inr ([(1 / 4, ex_i + ex_i, [[1, 0, 0], [- 1, 0, 0]], 4)], [1 / 4])"
    by (simp add: ex_pts_def process_point_def r ex_i_hkl hkl_tuple_def dict_get_def)
  then show ?thesis
    by (simp add: profile_buckets_def ex_flatten ex_sorted)
qed

lemma kept_magnitudes_sorted:
  assumes "peaks_inv tol (pk, gs)"
  shows "sorted_wrt (\<lambda>a b. a < b \<and> tol \<le> b - a) (map fst (kept_buckets M mi pk))"
proof -
  from assms have d: "distinct (map fst pk)" and ks: "set (map fst pk) = set gs"
    and ap: "\<forall>a \<in> set gs. \<forall>b \<in> set gs. a \<noteq> b \<longrightarrow> tol \<le> \<bar>a - b\<bar>"
    by (auto simp: peaks_inv_def)
  have "sorted (sort (map fst pk))" and "distinct (sort (map fst pk))" using d by simp_all
  then have "sorted_wrt (<) (map fst (sort_key fst pk))"
    by (simp add: map_sort_key strict_sorted_iff)
  moreover have "a < b \<and> tol \<le> b - a"
    if "a \<in> set (map fst (sort_key fst pk))" "b \<in> set (map fst (sort_key fst pk))" "a < b"
    for a b
  proof -
    from that ks have a: "a \<in> set gs" and b: "b \<in> set gs" by auto
    from that(3) have "a \<noteq> b" by simp
    with ap a b have "tol \<le> \<bar>a - b\<bar>" by blast
    with that(3) show ?thesis by simp
  qed
  ultimately have "sorted_wrt (\<lambda>a b. a < b \<and> tol \<le> b - a) (map fst (sort_key fst pk))"
    by (rule sorted_wrt_mono_rel [rotated])
  then have "sorted_wrt (\<lambda>x y. fst x < fst y \<and> tol \<le> fst y - fst x) (sort_key fst pk)"
    by (simp add: sorted_wrt_map)
  then have "sorted_wrt (\<lambda>x y. fst x < fst y \<and> tol \<le> fst y - fst x) (kept_buckets M mi pk)"
    unfolding kept_buckets_def by (rule sorted_wrt_filter)
  then show ?thesis by (simp add: sorted_wrt_map)
qed

lemma ex_result:
  "calculate_profile_data ex_params Map.empty (\<lambda>fam. fam) ex_struct False ex_pts
     (1 / 100000) (1 / 1000)
   = Inr \<lparr>magnitudes = [1 / 4], intensities = [100],
          hkls = [[[1, 0, 0], [- 1, 0, 0]]]\<rparr>"
proof -
  have p: "0 < ex_i + ex_i" using ex_i_pos by simp
  then have "exceeds_minimum (ex_i + ex_i) (1 / 1000) (ex_i + ex_i)"
    by (simp add: exceeds_minimum_def)
  then have "kept_buckets (ex_i + ex_i) (1 / 1000)
               [(1 / 4, ex_i + ex_i, [[1, 0, 0], [- 1, 0, 0]], 4)]
             = [(1 / 4, ex_i + ex_i, [[1, 0, 0], [- 1, 0, 0]], 4)]"
    by (simp add: kept_buckets_def)
  with p show ?thesis by (simp add: profile_outcome [OF ex_buckets])
qed

lemma records_eq:
  "records \<lparr>magnitudes = map fst kb,
            intensities = map (\<lambda>(k, v0, fam, d). v0 / M * 100) kb,
            hkls = map (\<lambda>(k, v0, fam, d). guf fam) kb\<rparr>
   = map (\<lambda>(k, v0, fam, d). (k, v0 / M * 100, guf fam)) kb"
  by (induction kb) (auto simp: records_def)

lemma filter_filter_stronger:
  "(\<And>x. Q x \<Longrightarrow> P x) \<Longrightarrow> filter Q (filter P xs) = filter Q xs"
  by (induction xs) auto

lemma kept_buckets_antitone:
  assumes "m1 \<le> m2"
  shows "kept_buckets M m2 pk = filter (\<lambda>(k, v0, fam, d). exceeds_minimum M m2 v0)
                                  (kept_buckets M m1 pk)"
proof -
  have "exceeds_minimum M m2 v0 \<Longrightarrow> exceeds_minimum M m1 v0" for v0
    using assms by (auto simp: exceeds_minimum_def split: if_splits)
  then show ?thesis
    unfolding kept_buckets_def by (subst filter_filter_stronger) auto
qed








lemma find_append:
  "find P (xs @ ys) = (case find P xs of None \<Rightarrow> find P ys | Some x \<Rightarrow> Some x)"
  by (induction xs) auto

lemma flatten_species_find_Some:
  "find (\<lambda>(sp, occu). params (symbol sp) = None) spl = Some (sp, occu) \<Longrightarrow>
   flatten_species params dwf fc spl acc = Inl (no_coefficients (symbol sp))"
proof (induction spl arbitrary: acc)
  case Nil
  then show ?case by simp
next
  case (Cons x spl)
  obtain sp' occu' where x: "x = (sp', occu')" by (cases x)
  show ?case
  proof (cases "params (symbol sp')")
    case None
    with Cons.prems x show ?thesis by simp
  next
    case (Some c)
    with Cons.prems x have
      "find (\<lambda>(sp, occu). params (symbol sp) = None) spl = Some (sp, occu)" by simp
    from Cons.IH [OF this] Some show ?thesis by (simp add: x)
  qed
qed

lemma flatten_species_find_None:
  "find (\<lambda>(sp, occu). params (symbol sp) = None) spl = None \<Longrightarrow>
   \<exists>acc'. flatten_species params dwf fc spl acc = Inr acc'"
proof (induction spl arbitrary: acc)
  case Nil
  then show ?case by simp
next
  case (Cons x spl)
  obtain sp' occu' where x: "x = (sp', occu')" by (cases x)
  from Cons.prems x obtain c where c: "params (symbol sp') = Some c"
    and rest: "find (\<lambda>(sp, occu). params (symbol sp) = None) spl = None"
    by (auto split: if_splits)
  from Cons.IH [OF rest] c show ?case by (simp add: x)
qed

lemma flatten_sites_first_missing:
  "first_missing params struct = Some (sp, occu) \<Longrightarrow>
   flatten_sites params dwf struct acc = Inl (no_coefficients (symbol sp))"
proof (induction struct arbitrary: acc)
  case Nil
  then show ?case by (simp add: first_missing_def)
next
  case (Cons s ss)
  let ?P = "\<lambda>(sp, occu). params (symbol sp) = None"
  show ?case
  proof (cases "find ?P (species_and_occu s)")
    case None
    with Cons.prems have "first_missing params ss = Some (sp, occu)"
      by (simp add: first_missing_def find_append)
    from Cons.IH [OF this] flatten_species_find_None [OF None, of dwf "frac_coords s" acc]
    show ?thesis by auto
  next
    case (Some y)
    with Cons.prems have "find ?P (species_and_occu s) = Some (sp, occu)"
      by (simp add: first_missing_def find_append)
    from flatten_species_find_Some [OF this] show ?thesis by simp
  qed
qed

lemma missing_has_first:
  assumes "\<exists>s \<in> set struct. \<exists>(sp, occu) \<in> set (species_and_occu s). params (symbol sp) = None"
  shows "\<exists>sp occu. first_missing params struct = Some (sp, occu) \<and> params (symbol sp) = None"
proof (cases "first_missing params struct")
  case None
  then have no: "\<not> (case x of (sp, occu) \<Rightarrow> params (symbol sp) = None)"
    if "x \<in> set (concat (map species_and_occu struct))" for x
    using that unfolding first_missing_def find_None_iff by blast
  from assms obtain s x where s: "s \<in> set struct" and x: "x \<in> set (species_and_occu s)"
    and P: "case x of (sp, occu) \<Rightarrow> params (symbol sp) = None" by blast
  from s x have "x \<in> set (concat (map species_and_occu struct))" by auto
  from no [OF this] P show ?thesis by contradiction
next
  case (Some x)
  obtain sp occu where x: "x = (sp, occu)" by (cases x)
  from Some have "case x of (sp, occu) \<Rightarrow> params (symbol sp) = None"
    unfolding first_missing_def find_Some_iff by auto
  with Some x show ?thesis by simp
qed

lemma ex_first_missing:
  "first_missing ex_params ex_unknown = Some (\<lparr>Z = 0, symbol = ''Xx''\<rparr>, 1 / 2)"
  by (simp add: first_missing_def ex_unknown_def ex_params_def)

lemma proximity_spec:
  assumes "wavelength \<noteq> 0"
  shows "proximity_of (1 / wavelength) c =
           (if arcsin_defined wavelength c then Some (spec_excitation_error wavelength c)
            else None)"
  by (cases c) (simp add: proximity_of_def arcsin_defined_def spec_excitation_error_def Let_def)

lemma intersection_row_spec:
  assumes "wavelength \<noteq> 0"
  shows "intersection_row (1 / wavelength) max_err c hkl g =
           (if arcsin_defined wavelength c \<and> spec_excitation_error wavelength c < max_err
            then Some (c, hkl, g, spec_excitation_error wavelength c) else None)"
  by (simp add: intersection_row_def proximity_spec [OF assms])

lemma intersection_rows_spec:
  assumes "wavelength \<noteq> 0"
  shows "intersection_rows (1 / wavelength) max_err cart pts =
           map (\<lambda>(hkl, g). (cart hkl, hkl, g, spec_excitation_error wavelength (cart hkl)))
             (filter (\<lambda>(hkl, g). arcsin_defined wavelength (cart hkl)
                        \<and> spec_excitation_error wavelength (cart hkl) < max_err) pts)"
proof (induction pts)
  case Nil
  then show ?case by (simp add: intersection_rows_def map_filter_simps)
next
  case (Cons p pts)
  obtain hkl g where p: "p = (hkl, g)" by (cases p)
  have "intersection_rows (1 / wavelength) max_err cart (p # pts) =
          (case intersection_row (1 / wavelength) max_err (cart hkl) hkl g of
             None \<Rightarrow> intersection_rows (1 / wavelength) max_err cart pts
           | Some r \<Rightarrow> r # intersection_rows (1 / wavelength) max_err cart pts)"
    by (simp add: intersection_rows_def map_filter_simps p split: option.splits)
  then show ?case
    by (simp add: Cons.IH intersection_row_spec [OF assms] p)
qed

lemma masked_coordinate:
  assumes "c \<in> set (map (\<lambda>(i, c, hkl). c) (filter P (zip ints (zip cs hs))))"
  shows "c \<in> set cs"
proof -
  from assms obtain i h where "(i, c, h) \<in> set (zip ints (zip cs hs))" by auto
  then have "(c, h) \<in> set (zip cs hs)" by (rule set_zip_rightD)
  then show ?thesis by (rule set_zip_leftD)
qed

lemma ed_lengths:
  assumes "calculate_ed_data wavelength max_err cart gki pts wdb = Inr sim"
  shows "\<exists>ints hit. wavelength \<noteq> 0
           \<and> hit = intersection_rows (1 / wavelength) max_err cart pts
           \<and> length ints = length hit
           \<and> sim = (let kept = filter (\<lambda>(i, c, hkl). 1 / 10 ^ 20 < i)
                                  (zip ints (zip (map (\<lambda>(c, hkl, g, p). c) hit)
                                                 (map (\<lambda>(c, hkl, g, p). hkl) hit)))
                    in \<lparr>coordinates = map (\<lambda>(i, c, hkl). c) kept,
                        indices = map (\<lambda>(i, c, hkl). hkl) kept,
                        ds_intensities = map (\<lambda>(i, c, hkl). i) kept,
                        with_direct_beam = wdb\<rparr>)"
  using assms
  by (auto simp: calculate_ed_data_def Let_def split: if_splits sum.splits)

lemma ex_prox: "proximity_of 40 (0, 0, z) = Some \<bar>z\<bar>"
  by (simp add: proximity_of_def)

lemma ex_rows:
  "intersection_rows 40 (1 / 100) (\<lambda>c. c)
     [((0, 0, 0), 0), ((0, 0, 1), 1), ((0, 0, 1 / 200), 1 / 200)]
   = [((0, 0, 0), (0, 0, 0), 0, 0), ((0, 0, 1 / 200), (0, 0, 1 / 200), 1 / 200, 1 / 200)]"
  by (simp add: intersection_rows_def map_filter_simps intersection_row_def ex_prox)

lemma ex_ed:
  "calculate_ed_data (1 / 40) (1 / 100) (\<lambda>c. c) ex_gki
     [((0, 0, 0), 0), ((0, 0, 1), 1), ((0, 0, 1 / 200), 1 / 200)] True
   = Inr \<lparr>coordinates = [(0, 0, 0), (0, 0, 1 / 200)], indices = [(0, 0, 0), (0, 0, 1 / 200)],
          ds_intensities = [1, 3 / 4], with_direct_beam = True\<rparr>"
  by (simp add: calculate_ed_data_def ex_rows ex_gki_def)

lemma ex_zero_flatten: "flatten_sites ex_params ex_dwf ex_zero [] = Inr ex_zero_atoms"
  by (simp add: ex_params_def ex_dwf_def ex_zero_def ex_zero_atoms_def)

lemma ex_zero_i_hkl: "i_hkl ex_zero_atoms hkl g = Inr 0"
  by (cases hkl) (simp add: i_hkl_def Let_def f_hkl_def ex_zero_atoms_def)

lemma ex_zero_buckets:
  "profile_buckets ex_params ex_dwf ex_zero False ex_pts (1 / 100000)
     = Inr [(1 / 4, 0, [[1, 0, 0], [- 1, 0, 0]], 4)]"
proof -
  have r: "py_round 0 = 0" "py_round 1 = 1" "py_round (- 1) = - 1"
    using py_round_of_int [of 0] py_round_of_int [of 1] py_round_of_int [of "- 1"] by simp_all
  have "accumulate ex_zero_atoms False (1 / 100000) ex_pts ([], [])
          = Inr ([(1 / 4, 0, [[1, 0, 0], [- 1, 0, 0]], 4)], [1 / 4])"
    by (simp add: ex_pts_def process_point_def r ex_zero_i_hkl hkl_tuple_def dict_get_def)
  then show ?thesis
    by (simp add: profile_buckets_def ex_zero_flatten ex_sorted)
qed

lemma ex_i2_pos: "0 < ex_i2"
proof -
  have "0 < 2276 / 1000 * exp (- (72322 / 1000) * (1 / 16))
            + 2428 / 1000 * exp (- (19773 / 1000) * (1 / 16 :: real))"
    by (intro add_pos_pos mult_pos_pos) simp_all
  then show ?thesis unfolding ex_i2_def by simp
qed

lemma ex_i2_hkl: "i_hkl ex_atoms hkl (1 / 2) = Inr ex_i2"
proof -
  have s2: "((1 / 2 :: real) / 2) ^ 2 = 1 / 16" by (simp add: power2_eq_square)
  have f: "f_hkl ex_atoms hkl (1 / 16)
             = of_real (2276 / 1000 * exp (- (72322 / 1000) * (1 / 16))
                        + 2428 / 1000 * exp (- (19773 / 1000) * (1 / 16)))"
    by (cases hkl) (simp add: f_hkl_def ex_atoms_def atomic_fs_def g_dot_r_def)
  show ?thesis
    unfolding i_hkl_def Let_def s2 f
    by (simp add: ex_atoms_def ex_i2_def power2_eq_square)
qed

lemma ex_sorted2:
  "sorted_pts ex_pts2 = [((0, 0, 0), 0, 0), ((1, 0, 0), 1 / 4, 0), ((- 1, 0, 0), 1 / 4, 0),
                         ((2, 0, 0), 1 / 2, 0)]"
  by (simp add: sorted_pts_def ex_pts2_def sort_key_pt_def)

lemma ex_buckets2:
  "profile_buckets ex_params Map.empty ex_struct False ex_pts2 (1 / 100000)
     = Inr [(1 / 4, ex_i + ex_i, [[1, 0, 0], [- 1, 0, 0]], 4), (1 / 2, ex_i2, [[2, 0, 0]], 2)]"
proof -
  have r: "py_round 0 = 0" "py_round 1 = 1" "py_round (- 1) = - 1" "py_round 2 = 2"
    using py_round_of_int [of 0] py_round_of_int [of 1] py_round_of_int [of "- 1"]
      py_round_of_int [of 2] by simp_all
  have "accumulate ex_atoms False (1 / 100000)
          [((0, 0, 0), 0, 0), ((1, 0, 0), 1 / 4, 0), ((- 1, 0, 0), 1 / 4, 0),
           ((2, 0, 0), 1 / 2, 0)] ([], [])
          = Inr ([(1 / 4, ex_i + ex_i, [[1, 0, 0], [- 1, 0, 0]], 4),
                  (1 / 2, ex_i2, [[2, 0, 0]], 2)], [1 / 4, 1 / 2])"
    by (simp add: process_point_def r ex_i_hkl ex_i2_hkl hkl_tuple_def dict_get_def)
  then show ?thesis
    by (simp add: profile_buckets_def ex_flatten ex_sorted2)
qed

lemma ex_result2:
  "\<exists>sim. calculate_profile_data ex_params Map.empty (\<lambda>fam. fam) ex_struct False ex_pts2
            (1 / 100000) 0 = Inr sim
         \<and> magnitudes sim = [1 / 4, 1 / 2]"
proof -
  let ?pk = "[(1 / 4 :: real, ex_i + ex_i, [[1, 0, 0], [- 1, 0, 0 :: int]], 4 :: real),
              (1 / 2, ex_i2, [[2, 0, 0]], 2)]"
  define M where "M = Max (set (map (\<lambda>(k, v0, fam, d). v0) ?pk))"
  have "ex_i + ex_i \<le> M" unfolding M_def by simp
  with ex_i_pos have Mpos: "0 < M" by simp
  have e1: "exceeds_minimum M 0 (ex_i + ex_i)"
    using Mpos ex_i_pos by (simp add: exceeds_minimum_def)
  have e2: "exceeds_minimum M 0 ex_i2"
    using Mpos ex_i2_pos by (simp add: exceeds_minimum_def)
  have kb: "kept_buckets M 0 ?pk = ?pk"
    using e1 e2 by (simp add: kept_buckets_def)
  from Mpos have "calculate_profile_data ex_params Map.empty (\<lambda>fam. fam) ex_struct False
      ex_pts2 (1 / 100000) 0
      = Inr \<lparr>magnitudes = map fst (kept_buckets M 0 ?pk),
             intensities = map (\<lambda>(k, v0, fam, d). v0 / M * 100) (kept_buckets M 0 ?pk),
             hkls = map (\<lambda>(k, v0, fam, d). fam) (kept_buckets M 0 ?pk)\<rparr>"
    unfolding profile_outcome [OF ex_buckets2] M_def [symmetric] by simp
  then show ?thesis unfolding kb by simp
qed

section \<open>The claims\<close>

text \<open>
  C1, as amended. With at least one enumerated point of nonzero magnitude and
  \<open>minimum_intensity < 100\<close>, when the loop over the points has completed and the maximum
  of the accumulated intensities is not zero, the call returns a profile: it holds the
  buckets that passed the filter, a bucket of maximal intensity among them, each with its
  accumulated intensity divided by the maximum accumulated intensity and multiplied by
  100, and the maximum of its intensities is exactly 100.
\<close>

theorem profile_max_intensity_100:
  assumes nz: "\<exists>p \<in> set recip_pts. fst (snd p) \<noteq> 0" and mi: "minimum_intensity < 100"
    and pk: "profile_buckets params dwf struct is_hex recip_pts tol = Inr pk"
    and pm: "py_max (map (\<lambda>(k, v0, fam, d). v0) pk) = Inr max_intensity"
    and M0: "max_intensity \<noteq> 0"
  shows "\<exists>sim. calculate_profile_data params dwf guf struct is_hex recip_pts tol
                  minimum_intensity = Inr sim
           \<and> (\<exists>k fam d. (k, max_intensity, fam, d)
                           \<in> set (kept_buckets max_intensity minimum_intensity pk))
           \<and> magnitudes sim = map fst (kept_buckets max_intensity minimum_intensity pk)
           \<and> intensities sim
               = map (\<lambda>(k, v0, fam, d). v0 / max_intensity * 100)
                   (kept_buckets max_intensity minimum_intensity pk)
           \<and> Max (set (intensities sim)) = 100"
proof -
  let ?kb = "kept_buckets max_intensity minimum_intensity pk"
  from pm have ne: "pk \<noteq> []" and M: "max_intensity = Max (set (map (\<lambda>(k, v0, fam, d). v0) pk))"
    by (simp_all add: py_max_Inr)
  let ?sim = "\<lparr>magnitudes = map fst ?kb,
              intensities = map (\<lambda>(k, v0, fam, d). v0 / max_intensity * 100) ?kb,
              hkls = map (\<lambda>(k, v0, fam, d). guf fam) ?kb\<rparr>"
  from ne M0 mi have ret: "calculate_profile_data params dwf guf struct is_hex recip_pts tol
      minimum_intensity = Inr ?sim"
    unfolding profile_outcome [OF pk] M [symmetric] by simp
  from profile_buckets_inv [OF pk] obtain gs where "peaks_inv tol (pk, gs)" ..
  then have nn: "\<forall>(k, v0, fam, d) \<in> set pk. 0 \<le> v0" by (auto simp: peaks_inv_def)
  from Max_bucket [OF ne M] obtain k fam dd where
    mem: "(k, max_intensity, fam, dd) \<in> set pk"
    and le: "\<forall>(k, v0, fam, d) \<in> set pk. v0 \<le> max_intensity"
    by blast
  from mem nn have "0 \<le> max_intensity" by auto
  with M0 have Mpos: "0 < max_intensity" by simp
  from kept_max [OF mem M0 mi] have in_kb: "(k, max_intensity, fam, dd) \<in> set ?kb" .
  have "Max (set (intensities ?sim)) = 100"
  proof (rule Max_eqI)
    show "finite (set (intensities ?sim))" by simp
    from in_kb have "(\<lambda>(k, v0, fam, d). v0 / max_intensity * 100) (k, max_intensity, fam, dd)
                       \<in> (\<lambda>(k, v0, fam, d). v0 / max_intensity * 100) ` set ?kb"
      by (rule imageI)
    with M0 show "100 \<in> set (intensities ?sim)" by simp
    fix y assume "y \<in> set (intensities ?sim)"
    then obtain k' v' fam' d' where in': "(k', v', fam', d') \<in> set ?kb"
      and y: "y = v' / max_intensity * 100" by auto
    from in' kept_subset have "(k', v', fam', d') \<in> set pk" by blast
    with le have "v' \<le> max_intensity" by auto
    with Mpos have "v' / max_intensity \<le> 1" by simp
    then have "v' / max_intensity * 100 \<le> 1 * 100" by (rule mult_right_mono) simp
    with y show "y \<le> 100" by simp
  qed
  with ret in_kb show ?thesis by (intro exI [of _ ?sim]) auto
qed

theorem profile_max_intensity_100_witness:
  "(\<exists>p \<in> set ex_pts. fst (snd p) \<noteq> 0) \<and> (1 / 1000 :: real) < 100
   \<and> profile_buckets ex_params Map.empty ex_struct False ex_pts (1 / 100000)
       = Inr [(1 / 4, ex_i + ex_i, [[1, 0, 0], [- 1, 0, 0]], 4)]
   \<and> py_max (map (\<lambda>(k, v0, fam, d). v0)
         [(1 / 4 :: real, ex_i + ex_i, [[1, 0, 0], [- 1, 0, 0 :: int]], 4 :: real)])
       = Inr (ex_i + ex_i)
   \<and> ex_i + ex_i \<noteq> 0
   \<and> (\<exists>sim. calculate_profile_data ex_params Map.empty (\<lambda>fam. fam) ex_struct False ex_pts
               (1 / 100000) (1 / 1000) = Inr sim
             \<and> magnitudes sim = [1 / 4] \<and> Max (set (intensities sim)) = 100)"
proof -
  have 1: "\<exists>p \<in> set ex_pts. fst (snd p) \<noteq> 0" by (simp add: ex_pts_def)
  have 2: "(1 / 1000 :: real) < 100" by simp
  have 3: "py_max (map (\<lambda>(k, v0, fam, d). v0)
             [(1 / 4 :: real, ex_i + ex_i, [[1, 0, 0], [- 1, 0, 0 :: int]], 4 :: real)])
           = Inr (ex_i + ex_i)"
    by simp
  have 4: "ex_i + ex_i \<noteq> 0" using ex_i_pos by simp
  then have "exceeds_minimum (ex_i + ex_i) (1 / 1000) (ex_i + ex_i)"
    by (simp add: exceeds_minimum_def)
  then have kb: "kept_buckets (ex_i + ex_i) (1 / 1000)
               [(1 / 4, ex_i + ex_i, [[1, 0, 0], [- 1, 0, 0]], 4)]
             = [(1 / 4, ex_i + ex_i, [[1, 0, 0], [- 1, 0, 0]], 4)]"
    by (simp add: kept_buckets_def)
  from profile_max_intensity_100 [OF 1 2 ex_buckets 3 4, of "\<lambda>fam. fam"]
  have "\<exists>sim. calculate_profile_data ex_params Map.empty (\<lambda>fam. fam) ex_struct False ex_pts
               (1 / 100000) (1 / 1000) = Inr sim
             \<and> magnitudes sim = [1 / 4] \<and> Max (set (intensities sim)) = 100"
    unfolding kb by auto
  with 1 2 ex_buckets 3 4 show ?thesis by blast
qed

text \<open>
  C1 as stated fails: on the aluminium site with occupancy zero every accumulated
  intensity is zero, the maximal bucket does not pass the filter (the quotient of line
  269 is NaN) and the call raises instead of returning a profile of maximum 100.
\<close>

theorem profile_zero_maximum_raises:
  "((1, 0, 0), 1 / 4, 0) \<in> set ex_pts \<and> fst (snd (((1, 0, 0), 1 / 4, 0) :: recip_pt)) \<noteq> 0
   \<and> (1 / 1000 :: real) < 100
   \<and> profile_buckets ex_params ex_dwf ex_zero False ex_pts (1 / 100000)
       = Inr [(1 / 4, 0, [[1, 0, 0], [- 1, 0, 0]], 4)]
   \<and> exceeds_minimum 0 (1 / 1000) 0 = False
   \<and> calculate_profile_data ex_params ex_dwf id ex_zero False ex_pts (1 / 100000) (1 / 1000)
       = Inl empty_max"
proof -
  have "calculate_profile_data ex_params ex_dwf id ex_zero False ex_pts (1 / 100000) (1 / 1000)
          = Inl empty_max"
    by (simp add: profile_outcome [OF ex_zero_buckets])
  with ex_zero_buckets show ?thesis by (simp add: ex_pts_def exceeds_minimum_def)
qed

text \<open>
  C2. For a positive \<open>magnitude_tolerance\<close>, the magnitudes of a returned profile are
  strictly ascending, any two of them (adjacent or not) differ by at least the tolerance,
  and all of them are keys of \<^verbatim>\<open>peaks\<close>: the magnitude of a merged reflection is no key.
\<close>

theorem profile_magnitudes_ascending:
  assumes "0 < magnitude_tolerance"
    and "calculate_profile_data params dwf guf struct is_hex recip_pts magnitude_tolerance
           minimum_intensity = Inr sim"
  shows "sorted_wrt (<) (magnitudes sim)
       \<and> (\<forall>i j. i < j \<and> j < length (magnitudes sim)
              \<longrightarrow> magnitude_tolerance \<le> magnitudes sim ! j - magnitudes sim ! i)
       \<and> (\<exists>pk. profile_buckets params dwf struct is_hex recip_pts magnitude_tolerance = Inr pk
              \<and> set (magnitudes sim) \<subseteq> set (map fst pk))"
proof -
  from profile_returns_buckets [OF assms(2)] obtain pk where
    pk: "profile_buckets params dwf struct is_hex recip_pts magnitude_tolerance = Inr pk" ..
  define M where "M = Max (set (map (\<lambda>(k, v0, fam, d). v0) pk))"
  from assms(2) have ms: "magnitudes sim = map fst (kept_buckets M minimum_intensity pk)"
    unfolding profile_outcome [OF pk] M_def [symmetric] by (auto split: if_splits)
  from profile_buckets_inv [OF pk] obtain gs where "peaks_inv magnitude_tolerance (pk, gs)" ..
  from kept_magnitudes_sorted [OF this, of M minimum_intensity]
  have s: "sorted_wrt (\<lambda>a b. a < b \<and> magnitude_tolerance \<le> b - a) (magnitudes sim)"
    by (simp only: ms)
  then have 1: "sorted_wrt (<) (magnitudes sim)"
    by (rule sorted_wrt_mono_rel [rotated]) simp
  from s have 2: "\<forall>i j. i < j \<and> j < length (magnitudes sim)
      \<longrightarrow> magnitude_tolerance \<le> magnitudes sim ! j - magnitudes sim ! i"
    by (simp add: sorted_wrt_iff_nth_less)
  have 3: "set (magnitudes sim) \<subseteq> set (map fst pk)"
    unfolding ms using kept_subset [of M minimum_intensity pk] by auto
  from 1 2 3 pk show ?thesis by blast
qed

theorem profile_magnitudes_ascending_witness:
  "(0 :: real) < 1 / 100000
   \<and> (\<exists>sim. calculate_profile_data ex_params Map.empty (\<lambda>fam. fam) ex_struct False ex_pts2
              (1 / 100000) 0 = Inr sim
            \<and> magnitudes sim = [1 / 4, 1 / 2]
            \<and> sorted_wrt (<) (magnitudes sim)
            \<and> 1 / 100000 \<le> magnitudes sim ! 1 - magnitudes sim ! 0)"
proof -
  have 1: "(0 :: real) < 1 / 100000" by simp
  from ex_result2 obtain sim where
    ret: "calculate_profile_data ex_params Map.empty (\<lambda>fam. fam) ex_struct False ex_pts2
            (1 / 100000) 0 = Inr sim"
    and ms: "magnitudes sim = [1 / 4, 1 / 2]" by blast
  note t = profile_magnitudes_ascending [OF 1 ret]
  from t have s: "sorted_wrt (<) (magnitudes sim)" by (rule conjunct1)
  from t have "\<forall>i j. i < j \<and> j < length (magnitudes sim)
      \<longrightarrow> 1 / 100000 \<le> magnitudes sim ! j - magnitudes sim ! i"
    by blast
  then have "(0 :: nat) < 1 \<and> 1 < length (magnitudes sim)
      \<longrightarrow> 1 / 100000 \<le> magnitudes sim ! 1 - magnitudes sim ! 0"
    by blast
  with ms have d: "1 / 100000 \<le> magnitudes sim ! 1 - magnitudes sim ! 0" by simp
  from 1 ret ms s d show ?thesis by blast
qed



text \<open>
  C4. For a nonzero wavelength, the points that \<^verbatim>\<open>calculate_ed_data\<close> retains as intersecting
  the Ewald sphere are, in order, exactly the enumerated points whose excitation error
  \<open>|(1/\<lambda>) (1 - cos (arcsin (sqrt (x\<^sup>2 + y\<^sup>2) \<lambda>))) - z|\<close> is defined and strictly less than
  \<^verbatim>\<open>max_excitation_error\<close>, each with that very value as its proximity; and every
  coordinate of a returned simulation belongs to such a point.
\<close>

theorem ewald_sphere_selection:
  assumes "wavelength \<noteq> 0"
  shows "map (\<lambda>(c, hkl, g, p). (hkl, g, p))
             (intersection_rows (1 / wavelength) max_excitation_error cart pts)
         = map (\<lambda>(hkl, g). (hkl, g, spec_excitation_error wavelength (cart hkl)))
             (filter (\<lambda>(hkl, g). arcsin_defined wavelength (cart hkl)
                        \<and> spec_excitation_error wavelength (cart hkl) < max_excitation_error)
                pts)
       \<and> (\<forall>sim. calculate_ed_data wavelength max_excitation_error cart gki pts wdb = Inr sim
            \<longrightarrow> (\<forall>c \<in> set (coordinates sim).
                   \<exists>(hkl, g) \<in> set pts. c = cart hkl \<and> arcsin_defined wavelength c
                      \<and> spec_excitation_error wavelength c < max_excitation_error))"
proof (intro conjI allI impI ballI)
  show "map (\<lambda>(c, hkl, g, p). (hkl, g, p))
             (intersection_rows (1 / wavelength) max_excitation_error cart pts)
         = map (\<lambda>(hkl, g). (hkl, g, spec_excitation_error wavelength (cart hkl)))
             (filter (\<lambda>(hkl, g). arcsin_defined wavelength (cart hkl)
                        \<and> spec_excitation_error wavelength (cart hkl) < max_excitation_error)
                pts)"
    unfolding intersection_rows_spec [OF assms] by (simp add: case_prod_beta o_def)
next
  fix sim c
  assume ret: "calculate_ed_data wavelength max_excitation_error cart gki pts wdb = Inr sim"
    and c: "c \<in> set (coordinates sim)"
  from ed_lengths [OF ret] obtain ints hit where
    hit: "hit = intersection_rows (1 / wavelength) max_excitation_error cart pts"
    and sim: "sim = (let kept = filter (\<lambda>(i, c, hkl). 1 / 10 ^ 20 < i)
                                  (zip ints (zip (map (\<lambda>(c, hkl, g, p). c) hit)
                                                 (map (\<lambda>(c, hkl, g, p). hkl) hit)))
                    in \<lparr>coordinates = map (\<lambda>(i, c, hkl). c) kept,
                        indices = map (\<lambda>(i, c, hkl). hkl) kept,
                        ds_intensities = map (\<lambda>(i, c, hkl). i) kept,
                        with_direct_beam = wdb\<rparr>)"
    by blast
  from c have "c \<in> set (map (\<lambda>(i, c, hkl). c)
                  (filter (\<lambda>(i, c, hkl). 1 / 10 ^ 20 < i)
                     (zip ints (zip (map (\<lambda>(c, hkl, g, p). c) hit)
                                    (map (\<lambda>(c, hkl, g, p). hkl) hit)))))"
    unfolding sim Let_def by simp
  then have "c \<in> set (map (\<lambda>(c, hkl, g, p). c) hit)" by (rule masked_coordinate)
  then show "\<exists>(hkl, g) \<in> set pts. c = cart hkl \<and> arcsin_defined wavelength c
                \<and> spec_excitation_error wavelength c < max_excitation_error"
    unfolding hit intersection_rows_spec [OF assms] by auto
qed

theorem ewald_sphere_selection_witness:
  "(1 / 40 :: real) \<noteq> 0
   \<and> calculate_ed_data (1 / 40) (1 / 100) (\<lambda>c. c) ex_gki
       [((0, 0, 0), 0), ((0, 0, 1), 1), ((0, 0, 1 / 200), 1 / 200)] True
     = Inr \<lparr>coordinates = [(0, 0, 0), (0, 0, 1 / 200)], indices = [(0, 0, 0), (0, 0, 1 / 200)],
            ds_intensities = [1, 3 / 4], with_direct_beam = True\<rparr>
   \<and> spec_excitation_error (1 / 40) (0, 0, 0) < 1 / 100
   \<and> spec_excitation_error (1 / 40) (0, 0, 1 / 200) < 1 / 100"
proof -
  have 1: "(1 / 40 :: real) \<noteq> 0" by simp
  note t = ewald_sphere_selection [OF 1, of "1 / 100" "\<lambda>c. c"
      "[((0, 0, 0), 0), ((0, 0, 1), 1), ((0, 0, 1 / 200), 1 / 200)]" ex_gki True]
  have "spec_excitation_error (1 / 40) c < 1 / 100"
    if c: "c \<in> set [(0, 0, 0), (0, 0, 1 / 200)]" for c
  proof -
    from c have "c \<in> set (coordinates
        \<lparr>coordinates = [(0, 0, 0), (0, 0, 1 / 200)], indices = [(0, 0, 0), (0, 0, 1 / 200)],
         ds_intensities = [1, 3 / 4], with_direct_beam = True\<rparr>)"
      by (simp only: DiffractionSimulation.simps)
    from t [THEN conjunct2, rule_format, OF ex_ed this]
    show ?thesis by (rule bexE) (clarsimp simp: case_prod_beta)
  qed
  from this [of "(0, 0, 0)"] this [of "(0, 0, 1 / 200)"] 1 ex_ed show ?thesis by simp
qed

text \<open>
  C5, as amended. A structure with a site whose species has no entry in the table makes
  \<^verbatim>\<open>calculate_profile_data\<close> raise a \<^verbatim>\<open>ValueError\<close> whose message names the symbol of the
  first such species in site order; and \<^verbatim>\<open>calculate_ed_data\<close>, with the intensity helper as
  the specification describes it and a nonzero wavelength, raises an
  \<^verbatim>\<open>UnknownElementError\<close> naming that symbol.
\<close>

theorem unknown_element_raises_ValueError:
  assumes "\<exists>s \<in> set struct. \<exists>(sp, occu) \<in> set (species_and_occu s). params (symbol sp) = None"
  shows "\<exists>sp occu.
           first_missing params struct = Some (sp, occu) \<and> params (symbol sp) = None
           \<and> calculate_profile_data params dwf guf struct is_hex recip_pts tol mi
               = Inl (Exn ''ValueError''
                       (''Unable to calculate XRD pattern as there is no scattering coefficients for ''
                          @ symbol sp @ ''.''))
           \<and> (wavelength \<noteq> 0
                \<longrightarrow> calculate_ed_data wavelength max_err cart
                      (spec_get_kinematical_intensities params intensity struct) pts wdb
                    = Inl (Exn ''UnknownElementError'' (symbol sp)))"
proof -
  from missing_has_first [OF assms] obtain sp occu where
    fm: "first_missing params struct = Some (sp, occu)" and m: "params (symbol sp) = None"
    by blast
  from flatten_sites_first_missing [OF fm, of dwf "[]"]
  have p: "calculate_profile_data params dwf guf struct is_hex recip_pts tol mi
             = Inl (Exn ''ValueError''
                     (''Unable to calculate XRD pattern as there is no scattering coefficients for ''
                        @ symbol sp @ ''.''))"
    by (simp add: calculate_profile_data_def no_coefficients_def)
  have e: "calculate_ed_data wavelength max_err cart
             (spec_get_kinematical_intensities params intensity struct) pts wdb
           = Inl (Exn ''UnknownElementError'' (symbol sp))" if "wavelength \<noteq> 0"
    using that by (simp add: calculate_ed_data_def Let_def spec_get_kinematical_intensities_def fm)
  from fm m p e show ?thesis by blast
qed

theorem unknown_element_raises_ValueError_witness:
  "(\<exists>s \<in> set ex_unknown. \<exists>(sp, occu) \<in> set (species_and_occu s). ex_params (symbol sp) = None)
   \<and> first_missing ex_params ex_unknown = Some (\<lparr>Z = 0, symbol = ''Xx''\<rparr>, 1 / 2)
   \<and> calculate_profile_data ex_params ex_dwf id ex_unknown False ex_pts (1 / 100000) (1 / 1000)
       = Inl (Exn ''ValueError''
               ''Unable to calculate XRD pattern as there is no scattering coefficients for Xx.'')
   \<and> (1 / 40 :: real) \<noteq> 0
   \<and> calculate_ed_data (1 / 40) (1 / 100) id
        (spec_get_kinematical_intensities ex_params (\<lambda>hkl g p. 1 - 50 * p) ex_unknown)
        [((0, 0, 0), 0)] True
       = Inl (Exn ''UnknownElementError'' ''Xx'')"
proof -
  have 1: "\<exists>s \<in> set ex_unknown. \<exists>(sp, occu) \<in> set (species_and_occu s).
             ex_params (symbol sp) = None"
    by (simp add: ex_unknown_def ex_params_def)
  have 2: "(1 / 40 :: real) \<noteq> 0" by simp
  from unknown_element_raises_ValueError [OF 1, of ex_dwf id False ex_pts "1 / 100000"
      "1 / 1000" "1 / 40" "1 / 100" id "\<lambda>hkl g p. 1 - 50 * p" "[((0, 0, 0), 0)]" True]
  obtain sp occu where
    fm: "first_missing ex_params ex_unknown = Some (sp, occu)"
    and p: "calculate_profile_data ex_params ex_dwf id ex_unknown False ex_pts (1 / 100000)
              (1 / 1000)
            = Inl (Exn ''ValueError''
                    (''Unable to calculate XRD pattern as there is no scattering coefficients for ''
                       @ symbol sp @ ''.''))"
    and e: "(1 / 40 :: real) \<noteq> 0
            \<longrightarrow> calculate_ed_data (1 / 40) (1 / 100) id
                  (spec_get_kinematical_intensities ex_params (\<lambda>hkl g p. 1 - 50 * p) ex_unknown)
                  [((0, 0, 0), 0)] True
                = Inl (Exn ''UnknownElementError'' (symbol sp))"
    by blast
  from fm ex_first_missing have "sp = \<lparr>Z = 0, symbol = ''Xx''\<rparr>" by simp
  then have sp: "symbol sp = ''Xx''" by simp
  from 1 ex_first_missing p e 2 show ?thesis unfolding sp by simp
qed

text \<open>
  C5 as stated fails: the exception of \<^verbatim>\<open>calculate_profile_data\<close> is a \<^verbatim>\<open>ValueError\<close>, not
  an \<^verbatim>\<open>UnknownElementError\<close>.
\<close>

theorem unknown_element_not_UnknownElementError:
  "calculate_profile_data ex_params ex_dwf id ex_unknown False ex_pts
     (1 / 100000) (1 / 1000) = Inl (no_coefficients ''Xx'')
   \<and> cls (no_coefficients ''Xx'') = ''ValueError''
   \<and> cls (no_coefficients ''Xx'') \<noteq> ''UnknownElementError''"
  by (simp add: calculate_profile_data_def ex_unknown_def ex_params_def no_coefficients_def)

text \<open>
  C6, as amended. When no bucket is retained (the dictionary \<^verbatim>\<open>peaks\<close> is empty, as when
  no point of nonzero magnitude is enumerated, or no bucket passes the filter), the call
  fails with the built-in \<^verbatim>\<open>ValueError\<close> that \<^verbatim>\<open>max\<close> raises on an empty sequence; the
  source has no \<^verbatim>\<open>EmptyProfileError\<close>.
\<close>

theorem profile_nothing_retained_raises:
  assumes "profile_buckets params dwf struct is_hex recip_pts tol = Inr pk"
    and "kept_buckets (Max (set (map (\<lambda>(k, v0, fam, d). v0) pk))) minimum_intensity pk = []"
  shows "calculate_profile_data params dwf guf struct is_hex recip_pts tol minimum_intensity
           = Inl (Exn ''ValueError'' ''max() arg is an empty sequence'')"
proof -
  from profile_buckets_inv [OF assms(1)] obtain gs where "peaks_inv tol (pk, gs)" ..
  then have d: "distinct (map fst pk)" by (auto simp: peaks_inv_def)
  show ?thesis
  proof (cases "pk = []")
    case True
    then show ?thesis
      unfolding calculate_profile_data_buckets assms(1) sum.case
      by (simp add: finish_def empty_max_def)
  next
    case False
    define M where "M = Max (set (map (\<lambda>(k, v0, fam, d). v0) pk))"
    from False have pm: "py_max (map (\<lambda>(k, v0, fam, d). v0) pk) = Inr M"
      by (simp add: py_max_Inr M_def)
    from assms(2) have kb: "kept_buckets M minimum_intensity pk = []"
      by (simp only: M_def)
    have "finish guf minimum_intensity pk = Inl empty_max"
      unfolding finish_eq [OF d] pm sum.case kb by simp
    then show ?thesis
      unfolding calculate_profile_data_buckets assms(1) sum.case
      by (simp add: empty_max_def)
  qed
qed

theorem profile_nothing_retained_raises_witness:
  "profile_buckets ex_params Map.empty ex_struct False [((0, 0, 0), 0, 0)] (1 / 100000) = Inr []
   \<and> kept_buckets (Max (set (map (\<lambda>(k, v0, fam, d). v0) []))) (1 / 1000) [] = []
   \<and> calculate_profile_data ex_params Map.empty (\<lambda>fam. fam) ex_struct False [((0, 0, 0), 0, 0)]
        (1 / 100000) (1 / 1000) = Inl (Exn ''ValueError'' ''max() arg is an empty sequence'')"
proof -
  have 1: "profile_buckets ex_params Map.empty ex_struct False [((0, 0, 0), 0, 0)] (1 / 100000)
             = Inr []"
    by (rule profile_buckets_all_zero [OF ex_flatten]) simp
  have 2: "kept_buckets (Max (set (map (\<lambda>(k, v0, fam, d). v0) []))) (1 / 1000) [] = []"
    by (simp add: kept_buckets_def)
  from profile_nothing_retained_raises [OF 1 2] 1 2 show ?thesis by blast
qed

text \<open>
  C6 as stated fails: with the origin as the only enumerated point the exception raised
  is a \<^verbatim>\<open>ValueError\<close>, not an \<^verbatim>\<open>EmptyProfileError\<close>.
\<close>

theorem profile_empty_not_EmptyProfileError:
  "calculate_profile_data ex_params ex_dwf id ex_struct False [((0, 0, 0), 0, 0)]
     (1 / 100000) (1 / 1000) = Inl empty_max
   \<and> cls empty_max = ''ValueError'' \<and> cls empty_max \<noteq> ''EmptyProfileError''"
proof -
  have "profile_buckets ex_params ex_dwf ex_struct False [((0, 0, 0), 0, 0)] (1 / 100000)
          = Inr []"
    unfolding ex_dwf_def by (rule profile_buckets_all_zero [OF ex_flatten]) simp
  then show ?thesis
    unfolding calculate_profile_data_buckets by (simp add: finish_def empty_max_def)
qed

text \<open>
  C7. \<^verbatim>\<open>calculate_ed_data\<close> returns whenever the wavelength is nonzero and the intensity
  helper yields one intensity for each excitation error it is given; and every simulation it returns
  holds coordinates, indices and intensities of equal length, with every intensity
  strictly greater than \<open>1e-20\<close>.
\<close>

theorem simulation_arrays:
  "(wavelength \<noteq> 0 \<and> (\<forall>a b c. \<exists>ints. gki a b c = Inr ints \<and> length ints = length c)
      \<longrightarrow> (\<exists>sim. calculate_ed_data wavelength max_err cart gki pts wdb = Inr sim))
   \<and> (\<forall>sim. calculate_ed_data wavelength max_err cart gki pts wdb = Inr sim
        \<longrightarrow> length (coordinates sim) = length (indices sim)
            \<and> length (indices sim) = length (ds_intensities sim)
            \<and> (\<forall>i \<in> set (ds_intensities sim). 1 / 10 ^ 20 < i))"
proof (intro conjI allI impI)
  assume a: "wavelength \<noteq> 0 \<and> (\<forall>a b c. \<exists>ints. gki a b c = Inr ints \<and> length ints = length c)"
  let ?hit = "intersection_rows (1 / wavelength) max_err cart pts"
  from a obtain ints where
    "gki (map (\<lambda>(c, hkl, g, p). hkl) ?hit) (map (\<lambda>(c, hkl, g, p). g) ?hit)
         (map (\<lambda>(c, hkl, g, p). p) ?hit) = Inr ints"
    and "length ints = length (map (\<lambda>(c, hkl, g, p). p) ?hit)"
    by blast
  with a show "\<exists>sim. calculate_ed_data wavelength max_err cart gki pts wdb = Inr sim"
    by (simp add: calculate_ed_data_def Let_def)
next
  fix sim
  assume ret: "calculate_ed_data wavelength max_err cart gki pts wdb = Inr sim"
  from ed_lengths [OF ret] obtain ints hit where
    hit: "hit = intersection_rows (1 / wavelength) max_err cart pts"
    and sim: "sim = (let kept = filter (\<lambda>(i, c, hkl). 1 / 10 ^ 20 < i)
                                  (zip ints (zip (map (\<lambda>(c, hkl, g, p). c) hit)
                                                 (map (\<lambda>(c, hkl, g, p). hkl) hit)))
                    in \<lparr>coordinates = map (\<lambda>(i, c, hkl). c) kept,
                        indices = map (\<lambda>(i, c, hkl). hkl) kept,
                        ds_intensities = map (\<lambda>(i, c, hkl). i) kept,
                        with_direct_beam = wdb\<rparr>)"
    by blast
  show "length (coordinates sim) = length (indices sim)" by (simp add: sim Let_def)
  show "length (indices sim) = length (ds_intensities sim)" by (simp add: sim Let_def)
  show "\<forall>i \<in> set (ds_intensities sim). 1 / 10 ^ 20 < i" by (auto simp: sim Let_def)
qed

theorem simulation_arrays_witness:
  "(1 / 40 :: real) \<noteq> 0
   \<and> (\<forall>a b c. \<exists>ints. ex_gki a b c = Inr ints \<and> length ints = length c)
   \<and> calculate_ed_data (1 / 40) (1 / 100) (\<lambda>c. c) ex_gki
       [((0, 0, 0), 0), ((0, 0, 1), 1), ((0, 0, 1 / 200), 1 / 200)] True
     = Inr \<lparr>coordinates = [(0, 0, 0), (0, 0, 1 / 200)], indices = [(0, 0, 0), (0, 0, 1 / 200)],
            ds_intensities = [1, 3 / 4], with_direct_beam = True\<rparr>
   \<and> (1 / 10 ^ 20 :: real) < 1 \<and> (1 / 10 ^ 20 :: real) < 3 / 4"
proof -
  have 1: "(1 / 40 :: real) \<noteq> 0" by simp
  have 2: "\<forall>a b c. \<exists>ints. ex_gki a b c = Inr ints \<and> length ints = length c"
    by (simp add: ex_gki_def)
  note t = simulation_arrays [of "1 / 40" ex_gki "1 / 100" "\<lambda>c. c"
      "[((0, 0, 0), 0), ((0, 0, 1), 1), ((0, 0, 1 / 200), 1 / 200)]" True]
  from t [THEN conjunct1] 1 2
  have r: "\<exists>sim. calculate_ed_data (1 / 40) (1 / 100) (\<lambda>c. c) ex_gki
           [((0, 0, 0), 0), ((0, 0, 1), 1), ((0, 0, 1 / 200), 1 / 200)] True = Inr sim"
    by blast
  from t [THEN conjunct2, rule_format, OF ex_ed]
  have "(1 / 10 ^ 20 :: real) < 1 \<and> (1 / 10 ^ 20 :: real) < 3 / 4" by simp
  with 1 2 r ex_ed show ?thesis by blast
qed

text \<open>
  C8. The retained records are antitone in \<open>minimum_intensity\<close>: if the call returns for a
  threshold \<open>m2\<close>, then for the same structure, points and tolerance it returns for every
  \<open>m1 \<le> m2\<close> (in particular for 0), and the records for \<open>m2\<close> are a subsequence, hence a
  subset, of the records for \<open>m1\<close>.
\<close>

theorem profile_records_antitone:
  assumes "m1 \<le> m2"
    and "calculate_profile_data params dwf guf struct is_hex recip_pts tol m2 = Inr s2"
  shows "\<exists>s1. calculate_profile_data params dwf guf struct is_hex recip_pts tol m1 = Inr s1
             \<and> subseq (records s2) (records s1)
             \<and> set (records s2) \<subseteq> set (records s1)"
proof -
  from profile_returns_buckets [OF assms(2)] obtain pk where
    pk: "profile_buckets params dwf struct is_hex recip_pts tol = Inr pk" ..
  define M where "M = Max (set (map (\<lambda>(k, v0, fam, d). v0) pk))"
  let ?sim = "\<lambda>m. \<lparr>magnitudes = map fst (kept_buckets M m pk),
                    intensities = map (\<lambda>(k, v0, fam, d). v0 / M * 100) (kept_buckets M m pk),
                    hkls = map (\<lambda>(k, v0, fam, d). guf fam) (kept_buckets M m pk)\<rparr>"
  from assms(2) have c: "\<not> (pk = [] \<or> M = 0 \<or> 100 \<le> m2)" and s2: "s2 = ?sim m2"
    unfolding profile_outcome [OF pk] M_def [symmetric] by (auto split: if_splits)
  from c assms(1) have "\<not> (pk = [] \<or> M = 0 \<or> 100 \<le> m1)" by simp
  then have s1: "calculate_profile_data params dwf guf struct is_hex recip_pts tol m1
                   = Inr (?sim m1)"
    unfolding profile_outcome [OF pk] M_def [symmetric] by simp
  have "subseq (kept_buckets M m2 pk) (kept_buckets M m1 pk)"
    unfolding kept_buckets_antitone [OF assms(1), of M pk] by (rule subseq_filter_left)
  then have sub: "subseq (records s2) (records (?sim m1))"
    unfolding s2 records_eq by (rule subseq_map)
  have "set (records s2) \<subseteq> set (records (?sim m1))"
  proof
    fix x assume "x \<in> set (records s2)"
    with sub show "x \<in> set (records (?sim m1))" by (auto elim: list_emb_set)
  qed
  with s1 sub show ?thesis by blast
qed

theorem profile_records_antitone_witness:
  "(0 :: real) \<le> 1 / 1000
   \<and> calculate_profile_data ex_params Map.empty (\<lambda>fam. fam) ex_struct False ex_pts
       (1 / 100000) (1 / 1000)
     = Inr \<lparr>magnitudes = [1 / 4], intensities = [100], hkls = [[[1, 0, 0], [- 1, 0, 0]]]\<rparr>
   \<and> (\<exists>s1. calculate_profile_data ex_params Map.empty (\<lambda>fam. fam) ex_struct False ex_pts
               (1 / 100000) 0 = Inr s1
            \<and> set (records \<lparr>magnitudes = [1 / 4], intensities = [100],
                               hkls = [[[1, 0, 0], [- 1, 0, 0 :: int]]]\<rparr>)
                  \<subseteq> set (records s1))"
proof -
  have 1: "(0 :: real) \<le> 1 / 1000" by simp
  from profile_records_antitone [OF 1 ex_result] 1 ex_result show ?thesis by blast
qed



text \<open>
  C10. With \<open>minimum_intensity \<ge> 100\<close>, on a structure that flattens to at least one entry
  and with at least one enumerated point of nonzero magnitude, the loop over the points
  completes, the maximum of line 261 exists, no bucket passes the strict filter, and the
  call raises the \<^verbatim>\<open>ValueError\<close> of \<^verbatim>\<open>max\<close> on an empty list where it rescales (line 275):
  it does not return an empty profile.
\<close>

theorem profile_minimum_100_raises:
  assumes "100 \<le> minimum_intensity"
    and "flatten_sites params dwf struct [] = Inr atoms" and "atoms \<noteq> []"
    and "\<exists>p \<in> set recip_pts. fst (snd p) \<noteq> 0"
  shows "\<exists>pk max_intensity.
           profile_buckets params dwf struct is_hex recip_pts tol = Inr pk
           \<and> py_max (map (\<lambda>(k, v0, fam, d). v0) pk) = Inr max_intensity
           \<and> collect guf pk max_intensity minimum_intensity (sort (map fst pk)) = Inr []
           \<and> calculate_profile_data params dwf guf struct is_hex recip_pts tol minimum_intensity
               = Inl empty_max"
proof -
  from profile_buckets_total [OF assms(2,3)] obtain pk where
    pk: "profile_buckets params dwf struct is_hex recip_pts tol = Inr pk" by blast
  from profile_buckets_nonempty [OF pk assms(4)] have ne: "pk \<noteq> []" .
  define M where "M = Max (set (map (\<lambda>(k, v0, fam, d). v0) pk))"
  from ne have pm: "py_max (map (\<lambda>(k, v0, fam, d). v0) pk) = Inr M"
    by (simp add: py_max_Inr M_def)
  from profile_buckets_inv [OF pk] obtain gs where "peaks_inv tol (pk, gs)" ..
  then have d: "distinct (map fst pk)" and nn: "\<forall>(k, v0, fam, d) \<in> set pk. 0 \<le> v0"
    by (auto simp: peaks_inv_def)
  from Max_bucket [OF ne M_def] have le: "\<forall>(k, v0, fam, d) \<in> set pk. v0 \<le> M" by blast
  from nn le have both: "\<forall>(k, v0, fam, d) \<in> set pk. 0 \<le> v0 \<and> v0 \<le> M" by fast
  from kept_nil_100 [OF both assms(1)] have "kept_buckets M minimum_intensity pk = []" .
  then have c: "collect guf pk M minimum_intensity (sort (map fst pk)) = Inr []"
    by (simp add: collect_sorted [OF d])
  from assms(1) have "calculate_profile_data params dwf guf struct is_hex recip_pts tol
      minimum_intensity = Inl empty_max"
    by (simp add: profile_outcome [OF pk])
  with pk pm c show ?thesis by blast
qed

theorem profile_minimum_100_raises_witness:
  "(100 :: real) \<le> 100
   \<and> flatten_sites ex_params Map.empty ex_struct [] = Inr ex_atoms \<and> ex_atoms \<noteq> []
   \<and> (\<exists>p \<in> set ex_pts. fst (snd p) \<noteq> 0)
   \<and> calculate_profile_data ex_params Map.empty (\<lambda>fam. fam) ex_struct False ex_pts
        (1 / 100000) 100 = Inl empty_max"
proof -
  have 1: "(100 :: real) \<le> 100" by simp
  have 3: "ex_atoms \<noteq> []" by (simp add: ex_atoms_def)
  have 4: "\<exists>p \<in> set ex_pts. fst (snd p) \<noteq> 0" by (simp add: ex_pts_def)
  from profile_minimum_100_raises [OF 1 ex_flatten 3 4] 1 ex_flatten 3 4
  show ?thesis by blast
qed

end
